theory Spec2Isabelle
  imports Main
begin

section \<open>The values and strings of the host language\<close>

text \<open>
  The streaming code of \<^verbatim>\<open>App\<close> works on JavaScript strings and on the values
  that \<^verbatim>\<open>JSON.parse\<close> returns. A text is a \<^typ>\<open>string\<close>, one \<^typ>\<open>char\<close> per code
  unit, for the texts whose code units are below 256. A parsed value is a \<open>json\<close>; a number carries the text that the host's
  number-to-string conversion gives for it (so zero is \<open>JNum ''0''\<close>), an object
  carries its own properties as a list of pairs, looked up by key.
  The value \<^verbatim>\<open>undefined\<close> is \<open>None\<close> of \<open>jsval\<close>.
\<close>

datatype json =
    JNull
  | JBool bool
  | JNum string
  | JStr string
  | JArr "json list"
  | JObj "(string \<times> json) list"

type_synonym jsval = "json option"

text \<open>
  \<^verbatim>\<open>JSON.parse\<close> and \<^verbatim>\<open>TextDecoder\<close> belong to the platform. The parser is a
  parameter of every function that calls it: it returns the parsed value, or \<open>None\<close>
  where \<^verbatim>\<open>JSON.parse\<close> throws a SyntaxError. A chunk is the text that
  \<^verbatim>\<open>decoder.decode(value)\<close> returns for one read.
\<close>

type_synonym parser = "string \<Rightarrow> json option"

datatype error = SyntaxError | TypeError | TransportError | RequestFailed

text \<open>Truthiness, as \<^verbatim>\<open>if (x)\<close>, \<^verbatim>\<open>!x\<close> and \<^verbatim>\<open>a && b\<close> test it.\<close>

fun truthy :: "jsval \<Rightarrow> bool" where
  "truthy None = False"
| "truthy (Some JNull) = False"
| "truthy (Some (JBool b)) = b"
| "truthy (Some (JNum n)) = (n \<noteq> ''0'')"
| "truthy (Some (JStr s)) = (s \<noteq> [])"
| "truthy (Some (JArr xs)) = True"
| "truthy (Some (JObj kvs)) = True"

text \<open>
  \<^verbatim>\<open>x.k\<close> for the property names the code reads (\<^verbatim>\<open>message\<close>, \<^verbatim>\<open>response\<close>,
  \<^verbatim>\<open>content\<close>, \<^verbatim>\<open>choices\<close>, \<^verbatim>\<open>delta\<close>): a TypeError on \<^verbatim>\<open>null\<close> and
  \<^verbatim>\<open>undefined\<close>, the own property of an object, \<^verbatim>\<open>undefined\<close> on everything else.
\<close>

fun get_prop :: "jsval \<Rightarrow> string \<Rightarrow> error + jsval" where
  "get_prop None k = Inl TypeError"
| "get_prop (Some JNull) k = Inl TypeError"
| "get_prop (Some (JObj kvs)) k = Inr (map_of kvs k)"
| "get_prop (Some v) k = Inr None"

text \<open>\<^verbatim>\<open>x[0]\<close>: the first element of an array, the first code unit of a string,
  the property \<^verbatim>\<open>"0"\<close> of an object.\<close>

fun index0 :: "jsval \<Rightarrow> error + jsval" where
  "index0 None = Inl TypeError"
| "index0 (Some JNull) = Inl TypeError"
| "index0 (Some (JArr xs)) = Inr (case xs of [] \<Rightarrow> None | x # _ \<Rightarrow> Some x)"
| "index0 (Some (JStr s)) = Inr (case s of [] \<Rightarrow> None | c # _ \<Rightarrow> Some (JStr [c]))"
| "index0 (Some (JObj kvs)) = Inr (map_of kvs ''0'')"
| "index0 (Some v) = Inr None"

text \<open>\<^verbatim>\<open>x?.k\<close>: \<^verbatim>\<open>undefined\<close> when \<open>x\<close> is \<^verbatim>\<open>null\<close> or \<^verbatim>\<open>undefined\<close>.\<close>

fun opt_prop :: "jsval \<Rightarrow> string \<Rightarrow> jsval" where
  "opt_prop None k = None"
| "opt_prop (Some JNull) k = None"
| "opt_prop (Some (JObj kvs)) k = map_of kvs k"
| "opt_prop (Some v) k = None"

text \<open>
  The string that \<^verbatim>\<open>s += x\<close> appends for a value \<open>x\<close>. An object whose own
  properties hide \<^verbatim>\<open>toString\<close> cannot be converted (a parsed value is never a
  function): TypeError. An array is joined with commas, \<^verbatim>\<open>null\<close> elements as
  the empty string.
\<close>

fun join_comma :: "string list \<Rightarrow> string" where
  "join_comma [] = []"
| "join_comma [s] = s"
| "join_comma (s # t # ss) = s @ '','' @ join_comma (t # ss)"

fun collect :: "(error + 'a) list \<Rightarrow> error + 'a list" where
  "collect [] = Inr []"
| "collect (Inl e # rs) = Inl e"
| "collect (Inr x # rs) = (case collect rs of Inl e \<Rightarrow> Inl e | Inr xs \<Rightarrow> Inr (x # xs))"

fun to_string :: "json \<Rightarrow> error + string" where
  "to_string JNull = Inr ''null''"
| "to_string (JBool b) = Inr (if b then ''true'' else ''false'')"
| "to_string (JNum n) = Inr n"
| "to_string (JStr s) = Inr s"
| "to_string (JObj kvs) =
     (if ''toString'' \<in> set (map fst kvs) then Inl TypeError else Inr ''[object Object]'')"
| "to_string (JArr xs) =
     (case collect (map (\<lambda>x. if x = JNull then Inr [] else to_string x) xs) of
        Inl e \<Rightarrow> Inl e
      | Inr ss \<Rightarrow> Inr (join_comma ss))"

fun concat_value :: "string \<Rightarrow> jsval \<Rightarrow> error + string" where
  "concat_value s None = Inr (s @ ''undefined'')"
| "concat_value s (Some v) = (case to_string v of Inl e \<Rightarrow> Inl e | Inr t \<Rightarrow> Inr (s @ t))"

subsection \<open>String operations\<close>

text \<open>White space as \<^verbatim>\<open>trim()\<close> and the regular expression class \<^verbatim>\<open>\s\<close> see it:
  tab, line feed, vertical tab, form feed, carriage return, space, no-break space.\<close>

definition is_space :: "char \<Rightarrow> bool" where
  "is_space c = (c \<in> {CHR 0x09, CHR 0x0A, CHR 0x0B, CHR 0x0C, CHR 0x0D, CHR 0x20, CHR 0xA0})"

text \<open>\<^verbatim>\<open>!line.trim()\<close>: the line is empty once trimmed.\<close>

definition trims_to_empty :: "string \<Rightarrow> bool" where
  "trims_to_empty s = list_all is_space s"

definition startsWith :: "string \<Rightarrow> string \<Rightarrow> bool" where
  "startsWith s p = (take (length p) s = p)"

fun str_includes :: "string \<Rightarrow> string \<Rightarrow> bool" where
  "str_includes [] p = (p = [])"
| "str_includes (c # cs) p = (startsWith (c # cs) p \<or> str_includes cs p)"

text \<open>\<^verbatim>\<open>chunk.split('\n')\<close>: the pieces between line feeds; a text that ends with a
  line feed has the empty string as its last piece.\<close>

fun split_newline :: "string \<Rightarrow> string list" where
  "split_newline [] = [[]]"
| "split_newline (c # cs) =
     (if c = CHR 0x0A then [] # split_newline cs
      else (case split_newline cs of [] \<Rightarrow> [[c]] | l # ls \<Rightarrow> (c # l) # ls))"

text \<open>
  \<^verbatim>\<open>content.split(/(\s+|[.,!?])/)\<close>. The expression matches a longest run of white
  space or one of the four punctuation characters and never the empty string; its
  capture group makes \<^verbatim>\<open>split\<close> return the separators too. So the result lists,
  in order, the text before a separator (possibly empty), the separator, and so on,
  ending with the text after the last separator. \<open>cur\<close> is the text read since the
  last separator.
\<close>

definition is_punct :: "char \<Rightarrow> bool" where
  "is_punct c = (c \<in> {CHR ''.'', CHR '','', CHR ''!'', CHR ''?''})"

function split_from :: "string \<Rightarrow> string \<Rightarrow> string list" where
  "split_from cur [] = [cur]"
| "split_from cur (c # cs) =
     (if is_space c then cur # (c # takeWhile is_space cs) # split_from [] (dropWhile is_space cs)
      else if is_punct c then cur # [c] # split_from [] cs
      else split_from (cur @ [c]) cs)"
  by pat_completeness auto
termination
  by (relation "measure (\<lambda>(cur, s). length s)") (auto simp: length_dropWhile_le less_Suc_eq_le)

definition split_words :: "string \<Rightarrow> string list" where
  "split_words content = split_from [] content"

section \<open>The state of the application\<close>

text \<open>
  The cells of \<^verbatim>\<open>App\<close> that the chat handlers read and write: the React state
  variables, the mutable reference \<^verbatim>\<open>streamBufferRef.current\<close>, and the
  effects the handlers have on the outside, in the order they happen.
  \<open>SetStreamedResponse v\<close> is a call \<^verbatim>\<open>setStreamedResponse(v)\<close>, the notification
  of the observer that displays the buffer; \<open>Timeout n\<close> is a wait of \<open>n\<close>
  milliseconds; \<open>Fetch r\<close> is a request sent. A chat and a message keep the fields
  that the handlers use. The requests: a new chat with its title; a message with the
  chat, the content and the role; a completion with the key, the model and the
  messages as pairs of role and content; a generation with the endpoint, the model
  and the prompt.
\<close>

record chat =
  chat_id :: string
  chat_title :: string

record message =
  msg_content :: string
  msg_role :: string

datatype request =
    CreateChat string
  | SaveMessage string string string
  | OpenRouterCompletion string string "(string \<times> string) list"
  | OllamaGenerate string string string

datatype event =
    SetStreamedResponse string
  | Timeout nat
  | ConsoleError
  | Fetch request
  | ReleaseLock

record app =
  selectedLLM :: string
  prompt :: string
  apiProvider :: string
  openRouterApiKey :: string
  ollamaEndpoint :: string
  currentChatId :: "string option"
  chats :: "chat list"
  chatHistory :: "message list"
  streamedResponse :: string
  streamBufferRef :: string
  isGenerating :: bool
  isConversationStarted :: bool
  settingsError :: string
  effects :: "event list"

definition setStreamedResponse :: "string \<Rightarrow> app \<Rightarrow> app" where
  "setStreamedResponse v st =
     st\<lparr>streamedResponse := v, effects := effects st @ [SetStreamedResponse v]\<rparr>"

definition console_error :: "app \<Rightarrow> app" where
  "console_error st = st\<lparr>effects := effects st @ [ConsoleError]\<rparr>"

definition setTimeout :: "nat \<Rightarrow> app \<Rightarrow> app" where
  "setTimeout ms st = st\<lparr>effects := effects st @ [Timeout ms]\<rparr>"

definition releaseLock :: "app \<Rightarrow> app" where
  "releaseLock st = st\<lparr>effects := effects st @ [ReleaseLock]\<rparr>"

definition fetch :: "request \<Rightarrow> app \<Rightarrow> app" where
  "fetch r st = st\<lparr>effects := effects st @ [Fetch r]\<rparr>"

text \<open>\<^verbatim>\<open>streamBufferRef.current += text; setStreamedResponse(streamBufferRef.current)\<close>\<close>

definition append_text :: "string \<Rightarrow> app \<Rightarrow> app" where
  "append_text t st =
     setStreamedResponse (streamBufferRef st @ t) (st\<lparr>streamBufferRef := streamBufferRef st @ t\<rparr>)"

text \<open>The same for a value that is not known to be a string: the conversion can throw,
  and then nothing has been assigned.\<close>

definition append_value :: "jsval \<Rightarrow> app \<Rightarrow> error + app" where
  "append_value content st =
     (case concat_value (streamBufferRef st) content of
        Inl e \<Rightarrow> Inl e
      | Inr b \<Rightarrow> Inr (setStreamedResponse b (st\<lparr>streamBufferRef := b\<rparr>)))"

text \<open>\<^verbatim>\<open>handleNewChat\<close>\<close>

definition handleNewChat :: "app \<Rightarrow> app" where
  "handleNewChat st =
     (setStreamedResponse [] (st\<lparr>currentChatId := None, chatHistory := []\<rparr>))
       \<lparr>streamBufferRef := [], isConversationStarted := False\<rparr>"

section \<open>The stream handler\<close>

subsection \<open>The Ollama branch\<close>

text \<open>
  The body of \<^verbatim>\<open>for (const line of lines)\<close> in the branch
  \<^verbatim>\<open>apiProvider === 'ollama'\<close>. \<open>Inl\<close> is an exception that leaves the loop: the
  SyntaxError of \<^verbatim>\<open>JSON.parse\<close>, or a TypeError of a property read or of the
  conversion of the content. Nothing of the line has been appended when it is thrown.
\<close>

definition ollama_line :: "parser \<Rightarrow> string \<Rightarrow> app \<Rightarrow> error + app" where
  "ollama_line P line st =
     (if trims_to_empty line then Inr st
      else case P line of
        None \<Rightarrow> Inl SyntaxError
      | Some data \<Rightarrow>
          (case get_prop (Some data) ''message'' of
             Inl e \<Rightarrow> Inl e
           | Inr msg \<Rightarrow>
               if truthy msg then
                 (case get_prop msg ''content'' of
                    Inl e \<Rightarrow> Inl e
                  | Inr content \<Rightarrow> append_value content st)
               else
                 (case get_prop (Some data) ''response'' of
                    Inl e \<Rightarrow> Inl e
                  | Inr response \<Rightarrow>
                      if truthy response then append_value response st else Inr st)))"

text \<open>The loop over the lines, inside the \<^verbatim>\<open>try\<close>: it ends at the first exception,
  with what the lines before it have appended.\<close>

fun ollama_lines :: "parser \<Rightarrow> string list \<Rightarrow> app \<Rightarrow> error option \<times> app" where
  "ollama_lines P [] st = (None, st)"
| "ollama_lines P (line # lines) st =
     (case ollama_line P line st of
        Inl e \<Rightarrow> (Some e, st)
      | Inr st' \<Rightarrow> ollama_lines P lines st')"

text \<open>The \<^verbatim>\<open>try\<close> with its \<^verbatim>\<open>catch\<close>, which appends the whole chunk.\<close>

definition ollama_chunk :: "parser \<Rightarrow> string \<Rightarrow> app \<Rightarrow> app" where
  "ollama_chunk P chunk st =
     (case ollama_lines P (split_newline chunk) st of
        (None, st') \<Rightarrow> st'
      | (Some e, st') \<Rightarrow> append_text chunk st')"

subsection \<open>The OpenRouter branch\<close>

text \<open>The value of \<^verbatim>\<open>jsonData.choices && jsonData.choices[0]?.delta?.content\<close>.\<close>

definition delta_content :: "json \<Rightarrow> error + jsval" where
  "delta_content jsonData =
     (case get_prop (Some jsonData) ''choices'' of
        Inl e \<Rightarrow> Inl e
      | Inr choices \<Rightarrow>
          if truthy choices then
            (case index0 choices of
               Inl e \<Rightarrow> Inl e
             | Inr choice \<Rightarrow> Inr (opt_prop (opt_prop choice ''delta'') ''content''))
          else Inr choices)"

text \<open>The loop \<^verbatim>\<open>for (const word of words)\<close> of the paced emission.\<close>

fun emit_words :: "string list \<Rightarrow> app \<Rightarrow> app" where
  "emit_words [] st = st"
| "emit_words (word # words) st =
     emit_words words (if word \<noteq> [] then append_text word (setTimeout 30 st) else st)"

text \<open>
  The body of the inner \<^verbatim>\<open>try\<close> for a line that starts with \<^verbatim>\<open>data: \<close>, on the
  pair of the local \<^verbatim>\<open>wordBuffer\<close> and the state. The first component of the
  result is the exception that the \<^verbatim>\<open>catch\<close> receives. In the paced branch
  \<^verbatim>\<open>wordBuffer += content\<close> comes before \<^verbatim>\<open>content.split\<close>, which is a
  TypeError for a content that is not a string: the holding buffer then keeps the text.
\<close>

definition sse_data :: "parser \<Rightarrow> bool \<Rightarrow> string \<Rightarrow> string \<times> app \<Rightarrow> error option \<times> string \<times> app" where
  "sse_data P isGeminiModel line s =
     (case s of (wordBuffer, st) \<Rightarrow>
        (case P (drop 6 line) of
           None \<Rightarrow> (Some SyntaxError, s)
         | Some jsonData \<Rightarrow>
             (case delta_content jsonData of
                Inl e \<Rightarrow> (Some e, s)
              | Inr content \<Rightarrow>
                  if truthy content then
                    (if isGeminiModel then
                       (case concat_value wordBuffer content of
                          Inl e \<Rightarrow> (Some e, s)
                        | Inr wb \<Rightarrow>
                            (case content of
                               Some (JStr text) \<Rightarrow> (None, [], emit_words (split_words text) st)
                             | _ \<Rightarrow> (Some TypeError, wb, st)))
                     else
                       (case append_value content st of
                          Inl e \<Rightarrow> (Some e, s)
                        | Inr st' \<Rightarrow> (None, wordBuffer, st')))
                  else (None, s))))"

text \<open>The body of \<^verbatim>\<open>for (const line of lines)\<close> in the other branch.\<close>

definition sse_line :: "parser \<Rightarrow> bool \<Rightarrow> string \<Rightarrow> string \<times> app \<Rightarrow> string \<times> app" where
  "sse_line P isGeminiModel line s =
     (if trims_to_empty line \<or> str_includes line ''[DONE]'' then s
      else if startsWith line ''data: '' then
        (case sse_data P isGeminiModel line s of
           (None, s') \<Rightarrow> s'
         | (Some e, wordBuffer, st) \<Rightarrow> (wordBuffer, console_error st))
      else s)"

subsection \<open>The read loop\<close>

text \<open>
  One \<^verbatim>\<open>reader.read()\<close> gives a chunk or fails; the end of the list of reads is
  \<^verbatim>\<open>done\<close>. \<open>process_chunk\<close> is the body of \<^verbatim>\<open>while (true)\<close> after the test of
  \<^verbatim>\<open>done\<close>.
\<close>

datatype read = Chunk string | ReadError

definition process_chunk :: "parser \<Rightarrow> string \<Rightarrow> bool \<Rightarrow> string \<Rightarrow> string \<times> app \<Rightarrow> string \<times> app" where
  "process_chunk P provider isGeminiModel chunk s =
     (if provider = ''ollama'' then (fst s, ollama_chunk P chunk (snd s))
      else fold (sse_line P isGeminiModel) (split_newline chunk) s)"

fun read_loop :: "parser \<Rightarrow> string \<Rightarrow> bool \<Rightarrow> read list \<Rightarrow> string \<times> app \<Rightarrow> error option \<times> string \<times> app" where
  "read_loop P provider isGeminiModel [] s = (None, s)"
| "read_loop P provider isGeminiModel (ReadError # rs) s = (Some TransportError, s)"
| "read_loop P provider isGeminiModel (Chunk chunk # rs) s =
     read_loop P provider isGeminiModel rs (process_chunk P provider isGeminiModel chunk s)"

text \<open>
  \<^verbatim>\<open>handleStreamResponse\<close>, for a response that has a body to read: the loop, the
  flush of the holding buffer, the \<^verbatim>\<open>catch\<close> that logs and throws again, the
  \<^verbatim>\<open>finally\<close> that releases the reader. The result is the returned text or the
  exception, with the state.
\<close>

definition handleStreamResponse :: "parser \<Rightarrow> read list \<Rightarrow> app \<Rightarrow> (error + string) \<times> app" where
  "handleStreamResponse P reads st =
     (let isGeminiModel = str_includes (selectedLLM st) ''gemini'' in
      case read_loop P (apiProvider st) isGeminiModel reads ([], st) of
        (None, wordBuffer, st1) \<Rightarrow>
          (let st2 = releaseLock (if wordBuffer \<noteq> [] then append_text wordBuffer st1 else st1)
           in (Inr (streamBufferRef st2), st2))
      | (Some e, wordBuffer, st1) \<Rightarrow> (Inl e, releaseLock (console_error st1)))"

subsection \<open>The New Chat button during a stream\<close>



section \<open>Sending a prompt\<close>

text \<open>
  The collaborators of \<^verbatim>\<open>handleSendPrompt\<close>: the chat store behind
  \<^verbatim>\<open>API_BASE_URL\<close> and the provider. \<open>None\<close> is a request that fails or whose
  status is not ok; both end in the same \<^verbatim>\<open>catch\<close>.
\<close>

record world =
  create_chat :: "string \<Rightarrow> chat option"
  save_message :: "string \<Rightarrow> string \<Rightarrow> string \<Rightarrow> message option"
  provider_stream :: "request \<Rightarrow> read list option"

text \<open>\<^verbatim>\<open>if (!chatId) { ... }\<close>: the chat to write to, created with the first line of
  the prompt, cut at 30 characters, as its title when there is none.\<close>

definition new_chat :: "world \<Rightarrow> string \<Rightarrow> app \<Rightarrow> (error + string) \<times> app" where
  "new_chat W currentPrompt st =
     (let title = take 30 (takeWhile (\<lambda>c. c \<noteq> CHR 0x0A) currentPrompt);
          st1 = fetch (CreateChat title) st
      in case create_chat W title of
           None \<Rightarrow> (Inl RequestFailed, st1)
         | Some newChat \<Rightarrow>
             (Inr (chat_id newChat),
              st1\<lparr>currentChatId := Some (chat_id newChat), chats := newChat # chats st1\<rparr>))"

definition ensure_chat :: "world \<Rightarrow> string \<Rightarrow> app \<Rightarrow> (error + string) \<times> app" where
  "ensure_chat W currentPrompt st =
     (case currentChatId st of
        None \<Rightarrow> new_chat W currentPrompt st
      | Some chatId \<Rightarrow> if chatId = [] then new_chat W currentPrompt st else (Inr chatId, st))"

text \<open>\<^verbatim>\<open>if (completeResponse.trim()) { ... }\<close>: the assistant's message is saved when
  it is not blank.\<close>

definition save_assistant :: "world \<Rightarrow> string \<Rightarrow> string \<Rightarrow> app \<Rightarrow> error option \<times> app" where
  "save_assistant W chatId completeResponse st =
     (if \<not> trims_to_empty completeResponse then
        (let st1 = fetch (SaveMessage chatId completeResponse ''assistant'') st
         in case save_message W chatId completeResponse ''assistant'' of
              None \<Rightarrow> (Some RequestFailed, st1)
            | Some assistantMessage \<Rightarrow>
                (None, st1\<lparr>chatHistory := chatHistory st1 @ [assistantMessage]\<rparr>))
      else (None, st))"

text \<open>The request to the provider, the stream and the saving of the answer: the two
  branches of the source differ in the request only.\<close>

definition stream_and_save :: "parser \<Rightarrow> world \<Rightarrow> request \<Rightarrow> string \<Rightarrow> app \<Rightarrow> error option \<times> app" where
  "stream_and_save P W req chatId st =
     (let st1 = fetch req st
      in case provider_stream W req of
           None \<Rightarrow> (Some RequestFailed, st1)
         | Some reads \<Rightarrow>
             (case handleStreamResponse P reads st1 of
                (Inl e, st2) \<Rightarrow> (Some e, st2)
              | (Inr completeResponse, st2) \<Rightarrow> save_assistant W chatId completeResponse st2))"

text \<open>The body of the \<^verbatim>\<open>try\<close>. \<open>history\<close> is the \<^verbatim>\<open>chatHistory\<close> of the render
  that runs the handler, which the request to OpenRouter sends.\<close>

definition send_try :: "parser \<Rightarrow> world \<Rightarrow> string \<Rightarrow> message list \<Rightarrow> app \<Rightarrow> error option \<times> app" where
  "send_try P W currentPrompt history st =
     (case ensure_chat W currentPrompt st of
        (Inl e, st1) \<Rightarrow> (Some e, st1)
      | (Inr chatId, st1) \<Rightarrow>
          (let st2 = fetch (SaveMessage chatId currentPrompt ''user'') st1
           in case save_message W chatId currentPrompt ''user'' of
                None \<Rightarrow> (Some RequestFailed, st2)
              | Some userMessage \<Rightarrow>
                  (let st3 = st2\<lparr>chatHistory := chatHistory st2 @ [userMessage]\<rparr>
                   in if apiProvider st3 = ''openrouter'' then
                        stream_and_save P W
                          (OpenRouterCompletion (openRouterApiKey st3) (selectedLLM st3)
                             (map (\<lambda>m. (msg_role m, msg_content m)) history @ [(''user'', currentPrompt)]))
                          chatId st3
                      else if apiProvider st3 = ''ollama'' then
                        stream_and_save P W
                          (OllamaGenerate (ollamaEndpoint st3) (selectedLLM st3) currentPrompt)
                          chatId st3
                      else (None, st3))))"

definition handleSendPrompt :: "parser \<Rightarrow> world \<Rightarrow> app \<Rightarrow> app" where
  "handleSendPrompt P W st =
     (if trims_to_empty (prompt st) \<or> selectedLLM st = [] then st
      else
        (let st1 = (if \<not> isConversationStarted st then st\<lparr>isConversationStarted := True\<rparr> else st);
             currentPrompt = prompt st;
             st2 = setStreamedResponse []
                     (st1\<lparr>prompt := [], isGenerating := True, streamBufferRef := []\<rparr>);
             st3 = (case send_try P W currentPrompt (chatHistory st) st2 of
                      (None, st') \<Rightarrow> st'
                    | (Some e, st') \<Rightarrow>
                        (console_error st')
                          \<lparr>settingsError := ''Failed to send message. Please check your API key and try again.''\<rparr>)
         in st3\<lparr>isGenerating := False\<rparr>))"

section \<open>What a stream appends\<close>

text \<open>
  The observer is notified by \<^verbatim>\<open>setStreamedResponse\<close>: \<open>notified\<close> lists the values
  it has received, oldest first. \<open>running b ts\<close> lists the values of a buffer that starts
  as \<open>b\<close> and receives the texts \<open>ts\<close> one after the other, and \<open>paced_effects\<close> is the
  same with the wait of 30 ms before each.
\<close>

fun notified :: "event list \<Rightarrow> string list" where
  "notified [] = []"
| "notified (SetStreamedResponse v # es) = v # notified es"
| "notified (e # es) = notified es"

fun running :: "string \<Rightarrow> string list \<Rightarrow> string list" where
  "running b [] = []"
| "running b (t # ts) = (b @ t) # running (b @ t) ts"

fun paced_effects :: "string \<Rightarrow> string list \<Rightarrow> event list" where
  "paced_effects b [] = []"
| "paced_effects b (w # ws) = Timeout 30 # SetStreamedResponse (b @ w) # paced_effects (b @ w) ws"

text \<open>\<open>appends st st' ts\<close>: from \<open>st\<close> to \<open>st'\<close> the buffer has received the texts \<open>ts\<close>, in
  this order, and the observer has been notified after each of them and at no other
  moment.\<close>

definition appends :: "app \<Rightarrow> app \<Rightarrow> string list \<Rightarrow> bool" where
  "appends st st' ts =
     (streamBufferRef st' = streamBufferRef st @ concat ts
      \<and> notified (effects st') = notified (effects st) @ running (streamBufferRef st) ts)"

text \<open>A sub-token of the paced emission: a run of white space, one punctuation
  character, or a run of other characters.\<close>

definition sub_token :: "string \<Rightarrow> bool" where
  "sub_token w =
     (w \<noteq> [] \<and> (list_all is_space w \<or> (length w = 1 \<and> is_punct (hd w))
        \<or> list_all (\<lambda>c. \<not> is_space c \<and> \<not> is_punct c) w))"

text \<open>
  The text that one line of the Ollama branch appends, read off \<open>ollama_line\<close> as a
  function of the line alone: an exception, nothing, or the text.
\<close>

definition ollama_line_text :: "parser \<Rightarrow> string \<Rightarrow> error + string option" where
  "ollama_line_text P line =
     (if trims_to_empty line then Inr None
      else case P line of
        None \<Rightarrow> Inl SyntaxError
      | Some data \<Rightarrow>
          (case get_prop (Some data) ''message'' of
             Inl e \<Rightarrow> Inl e
           | Inr msg \<Rightarrow>
               if truthy msg then
                 (case get_prop msg ''content'' of
                    Inl e \<Rightarrow> Inl e
                  | Inr content \<Rightarrow> map_sum id Some (concat_value [] content))
               else
                 (case get_prop (Some data) ''response'' of
                    Inl e \<Rightarrow> Inl e
                  | Inr response \<Rightarrow>
                      if truthy response then map_sum id Some (concat_value [] response)
                      else Inr None)))"

fun ollama_lines_texts :: "parser \<Rightarrow> string list \<Rightarrow> error option \<times> string list" where
  "ollama_lines_texts P [] = (None, [])"
| "ollama_lines_texts P (line # lines) =
     (case ollama_line_text P line of
        Inl e \<Rightarrow> (Some e, [])
      | Inr t \<Rightarrow>
          (case ollama_lines_texts P lines of
             (r, ts) \<Rightarrow> (r, (case t of None \<Rightarrow> [] | Some x \<Rightarrow> [x]) @ ts)))"

text \<open>A chunk of the Ollama branch appends the texts of its lines up to the first one
  that throws, and then its own whole text.\<close>

definition ollama_chunk_texts :: "parser \<Rightarrow> string \<Rightarrow> string list" where
  "ollama_chunk_texts P chunk =
     (case ollama_lines_texts P (split_newline chunk) of
        (None, ts) \<Rightarrow> ts
      | (Some e, ts) \<Rightarrow> ts @ [chunk])"

text \<open>The texts that one line of the OpenRouter branch appends, read off \<open>sse_line\<close>:
  the sub-tokens of a string content when paced, the content otherwise.\<close>

definition sse_line_texts :: "parser \<Rightarrow> bool \<Rightarrow> string \<Rightarrow> string list" where
  "sse_line_texts P isGeminiModel line =
     (if trims_to_empty line \<or> str_includes line ''[DONE]'' then []
      else if startsWith line ''data: '' then
        (case P (drop 6 line) of
           None \<Rightarrow> []
         | Some jsonData \<Rightarrow>
             (case delta_content jsonData of
                Inl e \<Rightarrow> []
              | Inr content \<Rightarrow>
                  if truthy content then
                    (if isGeminiModel then
                       (case content of
                          Some (JStr text) \<Rightarrow> filter (\<lambda>w. w \<noteq> []) (split_words text)
                        | _ \<Rightarrow> [])
                     else (case concat_value [] content of Inl e \<Rightarrow> [] | Inr t \<Rightarrow> [t]))
                  else []))
      else [])"

definition chunk_texts :: "parser \<Rightarrow> string \<Rightarrow> bool \<Rightarrow> string \<Rightarrow> string list" where
  "chunk_texts P provider isGeminiModel chunk =
     (if provider = ''ollama'' then ollama_chunk_texts P chunk
      else concat (map (sse_line_texts P isGeminiModel) (split_newline chunk)))"

definition stream_texts :: "parser \<Rightarrow> string \<Rightarrow> bool \<Rightarrow> string list \<Rightarrow> string list" where
  "stream_texts P provider isGeminiModel chunks =
     concat (map (chunk_texts P provider isGeminiModel) chunks)"

text \<open>A slicing of a text into chunks is line-aligned when every chunk but the last is
  empty or ends with a line feed.\<close>

fun line_aligned :: "string list \<Rightarrow> bool" where
  "line_aligned [] = True"
| "line_aligned [c] = True"
| "line_aligned (c # d # cs) = ((c = [] \<or> last c = CHR 0x0A) \<and> line_aligned (d # cs))"

section \<open>The stream as the specification describes it\<close>

text \<open>
  For comparison with the code, the frame parser and the content extractor in the
  words of the specification (its sections 4.2 and 4.3). A frame is a line of the
  response, wherever the chunk boundaries fall.

  Line-delimited JSON: a record's fragment is the string of its assistant payload
  field or of its direct-completion field; a line that does not parse is its own
  fragment. The last, possibly incomplete line of a chunk is kept as
  \<open>pendingFragment\<close> and put in front of the next chunk.
\<close>

definition spec_record_text :: "json \<Rightarrow> string" where
  "spec_record_text r =
     (case opt_prop (opt_prop (Some r) ''message'') ''content'' of
        Some (JStr s) \<Rightarrow> s
      | _ \<Rightarrow> (case opt_prop (Some r) ''response'' of Some (JStr s) \<Rightarrow> s | _ \<Rightarrow> []))"

definition spec_ldjson_line :: "parser \<Rightarrow> string \<Rightarrow> string" where
  "spec_ldjson_line P line = (case P line of None \<Rightarrow> line | Some r \<Rightarrow> spec_record_text r)"

text \<open>The pair is \<open>(pendingFragment, buffer)\<close>.\<close>

definition spec_ldjson_chunk :: "parser \<Rightarrow> string \<times> string \<Rightarrow> string \<Rightarrow> string \<times> string" where
  "spec_ldjson_chunk P s chunk =
     (let lines = split_newline (fst s @ chunk)
      in (last lines, snd s @ concat (map (spec_ldjson_line P) (butlast lines))))"

definition spec_ldjson_stream :: "parser \<Rightarrow> string list \<Rightarrow> string \<times> string" where
  "spec_ldjson_stream P chunks = foldl (spec_ldjson_chunk P) ([], []) chunks"

text \<open>
  Server-sent events: blank lines and lines with the sentinel are discarded; a line
  that begins with \<^verbatim>\<open>data: \<close> is parsed after the prefix and gives the first
  choice's content when that is a string that is not empty; a line that does not
  parse is skipped. \<open>spec_sse_fragments\<close> lists the fragments of a received text.
\<close>

definition spec_sse_line :: "parser \<Rightarrow> string \<Rightarrow> string" where
  "spec_sse_line P line =
     (if trims_to_empty line \<or> str_includes line ''[DONE]'' then []
      else if startsWith line ''data: '' then
        (case P (drop 6 line) of
           None \<Rightarrow> []
         | Some r \<Rightarrow>
             (case opt_prop (Some r) ''choices'' of
                Some (JArr (choice # choices)) \<Rightarrow>
                  (case opt_prop (opt_prop (Some choice) ''delta'') ''content'' of
                     Some (JStr s) \<Rightarrow> s
                   | _ \<Rightarrow> [])
              | _ \<Rightarrow> []))
      else [])"

definition spec_sse_fragments :: "parser \<Rightarrow> string \<Rightarrow> string list" where
  "spec_sse_fragments P received = map (spec_sse_line P) (split_newline received)"

section \<open>Worked inputs\<close>

text \<open>
  \<^verbatim>\<open>JSON.parse\<close> on the frames of the worked examples below: each listed text with
  the value it denotes. The other lines that the examples feed (pieces of a cut frame,
  plain words) are not JSON texts, and \<^verbatim>\<open>JSON.parse\<close> throws on them.
\<close>

definition example_frames :: "(string \<times> json) list" where
  \<open>example_frames =
     [(''{"message":{"content":"Hel"}}'', JObj [(''message'', JObj [(''content'', JStr ''Hel'')])]),
      (''{"message":{"content":"lo"}}'', JObj [(''message'', JObj [(''content'', JStr ''lo'')])]),
      (''{"response":"Hello"}'', JObj [(''response'', JStr ''Hello'')]),
      (''{"response":"X"}'', JObj [(''response'', JStr ''X'')]),
      (''{"choices":[{"delta":{"content":"A"}}]}'',
         JObj [(''choices'', JArr [JObj [(''delta'', JObj [(''content'', JStr ''A'')])]])]),
      (''{"choices":[{"delta":{"content":"B"}}]}'',
         JObj [(''choices'', JArr [JObj [(''delta'', JObj [(''content'', JStr ''B'')])]])]),
      (''{"choices":[{"delta":{"content":"Hi, world!"}}]}'',
         JObj [(''choices'', JArr [JObj [(''delta'', JObj [(''content'', JStr ''Hi, world!'')])]])])]\<close>

definition example_parse :: parser where
  "example_parse line = map_of example_frames line"

text \<open>The state of \<^verbatim>\<open>App\<close> after its first render, and with a provider and a model
  selected.\<close>

definition initial_app :: app where
  "initial_app =
     \<lparr>selectedLLM = [], prompt = [], apiProvider = ''openrouter'', openRouterApiKey = [],
      ollamaEndpoint = ''http://localhost:11434'', currentChatId = None, chats = [],
      chatHistory = [], streamedResponse = [], streamBufferRef = [], isGenerating = False,
      isConversationStarted = False, settingsError = [], effects = []\<rparr>"

definition ollama_app :: app where
  "ollama_app = initial_app\<lparr>selectedLLM := ''llama3'', apiProvider := ''ollama''\<rparr>"

definition openrouter_app :: app where
  "openrouter_app = initial_app\<lparr>selectedLLM := ''openai/gpt-4o''\<rparr>"

definition gemini_app :: app where
  "gemini_app = initial_app\<lparr>selectedLLM := ''google/gemini-pro''\<rparr>"

text \<open>A chat store that accepts every request, and a provider without a body.\<close>

definition example_world :: world where
  "example_world =
     \<lparr>create_chat = (\<lambda>title. Some \<lparr>chat_id = ''c1'', chat_title = title\<rparr>),
      save_message = (\<lambda>chatId content role. Some \<lparr>msg_content = content, msg_role = role\<rparr>),
      provider_stream = (\<lambda>req. Some [])\<rparr>"

section \<open>Lines and chunks\<close>

lemmas run_defs = handleStreamResponse_def process_chunk_def ollama_chunk_def ollama_line_def
  sse_line_def sse_data_def delta_content_def append_value_def append_text_def setStreamedResponse_def
  releaseLock_def console_error_def setTimeout_def trims_to_empty_def is_space_def startsWith_def
  example_parse_def example_frames_def ollama_app_def openrouter_app_def gemini_app_def initial_app_def
  split_words_def is_punct_def Let_def handleNewChat_def

lemma split_newline_nonempty: "split_newline s \<noteq> []"
  by (induction s) (auto split: list.splits)

lemma split_newline_append:
  "CHR 0x0A \<notin> set line \<Longrightarrow> split_newline (line @ CHR 0x0A # rest) = line # split_newline rest"
  by (induction line) (auto split: list.splits)

lemma split_newline_single:
  "CHR 0x0A \<notin> set line \<Longrightarrow> split_newline line = [line]"
  by (induction line) (auto split: list.splits)

lemma split_newline_cut:
  "split_newline (a @ CHR 0x0A # b) = split_newline a @ split_newline b"
  by (induction a) (auto split: list.splits simp: split_newline_nonempty)

lemma split_newline_ends:
  assumes "c \<noteq> []" and "last c = CHR 0x0A"
  shows "split_newline (c @ b) = split_newline (butlast c) @ split_newline b"
    and "split_newline c = split_newline (butlast c) @ [[]]"
proof -
  have c: "c = butlast c @ [CHR 0x0A]"
    using assms by (metis append_butlast_last_id)
  have "split_newline ((butlast c @ [CHR 0x0A]) @ b) = split_newline (butlast c) @ split_newline b"
    using split_newline_cut [of "butlast c" b] by simp
  with c show "split_newline (c @ b) = split_newline (butlast c) @ split_newline b" by simp
  have "split_newline (butlast c @ [CHR 0x0A]) = split_newline (butlast c) @ [[]]"
    using split_newline_cut [of "butlast c" "[]"] by simp
  with c show "split_newline c = split_newline (butlast c) @ [[]]" by simp
qed

lemma data_line_not_blank: "startsWith line ''data: '' \<Longrightarrow> \<not> trims_to_empty line"
proof -
  assume "startsWith line ''data: ''"
  then have t: "take (length ''data: '') line = ''data: ''" by (simp only: startsWith_def)
  have d: "CHR ''d'' \<in> set ''data: ''" by simp
  have "CHR ''d'' \<in> set (take (length ''data: '') line)" unfolding t by (rule d)
  then have "CHR ''d'' \<in> set line" by (rule in_set_takeD)
  moreover have "\<not> is_space CHR ''d''" by (simp add: is_space_def)
  ultimately show ?thesis unfolding trims_to_empty_def list_all_iff by blast
qed

section \<open>Appending and notifying\<close>

lemma append_text_fields:
  "streamBufferRef (append_text t st) = streamBufferRef st @ t"
  "streamedResponse (append_text t st) = streamBufferRef st @ t"
  "effects (append_text t st) = effects st @ [SetStreamedResponse (streamBufferRef st @ t)]"
  by (simp_all add: append_text_def setStreamedResponse_def)

lemma notified_append: "notified (es @ fs) = notified es @ notified fs"
  by (induction es rule: notified.induct) simp_all

lemma running_append: "running b (ts @ us) = running b ts @ running (b @ concat ts) us"
  by (induction ts arbitrary: b) simp_all

lemma concat_value_to: "concat_value b v = map_sum id ((@) b) (concat_value [] v)"
  by (cases v) (auto split: sum.splits)

lemma append_value_text:
  "append_value v st = map_sum id (\<lambda>t. append_text t st) (concat_value [] v)"
proof -
  have "concat_value (streamBufferRef st) v = map_sum id ((@) (streamBufferRef st)) (concat_value [] v)"
    by (rule concat_value_to)
  then show ?thesis
    by (cases "concat_value [] v") (simp_all add: append_value_def append_text_def)
qed

lemma appends_refl: "appends st st []"
  by (simp add: appends_def)

lemma appends_trans: "appends a b ts \<Longrightarrow> appends b c us \<Longrightarrow> appends a c (ts @ us)"
  by (simp add: appends_def running_append)

lemma appends_text: "appends st (append_text t st) [t]"
  by (simp add: appends_def append_text_fields notified_append)

lemma appends_console: "appends st (console_error st) []"
  by (simp add: appends_def console_error_def notified_append)

section \<open>The texts of the Ollama branch\<close>

lemma case_map_sum_Some:
  "(case map_sum id Some r of Inl e \<Rightarrow> Inl e | Inr None \<Rightarrow> Inr st | Inr (Some t) \<Rightarrow> Inr (f t))
     = map_sum id f r"
  by (cases r) simp_all

lemma ollama_line_by_text:
  "ollama_line P line st =
     (case ollama_line_text P line of
        Inl e \<Rightarrow> Inl e
      | Inr None \<Rightarrow> Inr st
      | Inr (Some t) \<Rightarrow> Inr (append_text t st))"
proof -
  define by_text where "by_text r =
     (case r of Inl e \<Rightarrow> Inl e | Inr None \<Rightarrow> Inr st | Inr (Some t) \<Rightarrow> Inr (append_text t st))"
    for r :: "error + string option"
  have simps: "by_text (Inl e) = Inl e" "by_text (Inr None) = Inr st"
    "by_text (map_sum id Some r) = map_sum id (\<lambda>t. append_text t st) r" for e r
    by (simp_all add: by_text_def case_map_sum_Some)
  have "ollama_line P line st = by_text (ollama_line_text P line)"
    by (simp add: ollama_line_def ollama_line_text_def append_value_text simps
          split: option.splits sum.splits)
  then show ?thesis by (simp add: by_text_def)
qed

lemma ollama_lines_by_texts:
  "fst (ollama_lines P ls st) = fst (ollama_lines_texts P ls)
   \<and> appends st (snd (ollama_lines P ls st)) (snd (ollama_lines_texts P ls))"
proof (induction ls arbitrary: st)
  case Nil
  show ?case by (simp add: appends_refl)
next
  case (Cons l ls)
  show ?case
  proof (cases "ollama_line_text P l")
    case (Inl e)
    then show ?thesis by (simp add: ollama_line_by_text appends_refl)
  next
    case (Inr t)
    show ?thesis
    proof (cases t)
      case None
      with Inr Cons [of st] show ?thesis
        by (simp add: ollama_line_by_text case_prod_beta)
    next
      case (Some x)
      from Cons [of "append_text x st"] appends_trans [OF appends_text [of st x]]
      have "appends st (snd (ollama_lines P ls (append_text x st))) ([x] @ snd (ollama_lines_texts P ls))"
        by blast
      with Inr Some Cons [of "append_text x st"] show ?thesis
        by (simp add: ollama_line_by_text case_prod_beta)
    qed
  qed
qed

lemma ollama_chunk_appends: "appends st (ollama_chunk P chunk st) (ollama_chunk_texts P chunk)"
proof -
  obtain r st' where run: "ollama_lines P (split_newline chunk) st = (r, st')"
    by (cases "ollama_lines P (split_newline chunk) st")
  obtain r' ts where tx: "ollama_lines_texts P (split_newline chunk) = (r', ts)"
    by (cases "ollama_lines_texts P (split_newline chunk)")
  from ollama_lines_by_texts [of P "split_newline chunk" st] run tx
  have r: "r = r'" and a: "appends st st' ts" by simp_all
  show ?thesis
  proof (cases r)
    case None
    with run tx r a show ?thesis by (simp add: ollama_chunk_def ollama_chunk_texts_def)
  next
    case (Some e)
    from appends_trans [OF a appends_text [of st' chunk]]
    show ?thesis using run tx r Some by (auto simp: ollama_chunk_def ollama_chunk_texts_def)
  qed
qed

lemma ollama_line_empty: "ollama_line P [] st = Inr st"
  by (simp add: ollama_line_def trims_to_empty_def)

lemma ollama_lines_append:
  "ollama_lines P (xs @ ys) st =
     (case ollama_lines P xs st of
        (None, st') \<Rightarrow> ollama_lines P ys st'
      | (Some e, st') \<Rightarrow> (Some e, st'))"
  by (induction xs arbitrary: st) (simp_all split: sum.splits)

lemma ollama_lines_stop:
  assumes "ollama_lines P pre st = (None, st1)" and "\<not> trims_to_empty bad" and "P bad = None"
  shows "ollama_lines P (pre @ bad # post) st = (Some SyntaxError, st1)"
  using assms by (simp add: ollama_lines_append ollama_line_def)

lemma ollama_line_record:
  assumes "\<not> trims_to_empty line" and "P line = Some (JObj kvs)"
    and "(map_of kvs ''message'' = Some (JObj m) \<and> map_of m ''content'' = Some (JStr s))
         \<or> (\<not> truthy (map_of kvs ''message'') \<and> map_of kvs ''response'' = Some (JStr s))"
  shows "ollama_line P line st =
           Inr (if truthy (map_of kvs ''message'') \<or> s \<noteq> [] then append_text s st else st)"
  using assms by (auto simp: ollama_line_def append_value_def append_text_def)

section \<open>The texts of the OpenRouter branch\<close>

lemma sse_line_skipped:
  "trims_to_empty line \<or> str_includes line ''[DONE]'' \<Longrightarrow> sse_line P g line s = s"
  by (simp add: sse_line_def)

lemma sse_line_unparsed:
  "\<not> trims_to_empty line \<Longrightarrow> \<not> str_includes line ''[DONE]'' \<Longrightarrow> startsWith line ''data: ''
   \<Longrightarrow> P (drop 6 line) = None \<Longrightarrow> sse_line P g line (wb, st) = (wb, console_error st)"
  by (simp add: sse_line_def sse_data_def)

lemma sse_line_empty: "sse_line P g [] s = s"
  by (simp add: sse_line_def trims_to_empty_def)

lemma sse_line_content:
  assumes "\<not> str_includes line ''[DONE]''" and "startsWith line ''data: ''"
    and "P (drop 6 line) = Some (JObj kvs)" and "map_of kvs ''choices'' = Some (JArr (JObj c # cs))"
    and "map_of c ''delta'' = Some (JObj d)" and "map_of d ''content'' = Some (JStr s)" and "s \<noteq> []"
  shows "sse_line P g line (wb, st) =
           (if g then ([], emit_words (split_words s) st) else (wb, append_text s st))"
  using assms data_line_not_blank [OF assms(2)]
  by (simp add: sse_line_def sse_data_def delta_content_def append_value_def append_text_def)

lemma emit_words_appends: "appends st (emit_words ws st) (filter (\<lambda>w. w \<noteq> []) ws)"
proof (induction ws arbitrary: st)
  case Nil
  show ?case by (simp add: appends_refl)
next
  case (Cons w ws)
  show ?case
  proof (cases "w = []")
    case True
    with Cons show ?thesis by simp
  next
    case False
    have "appends st (append_text w (setTimeout 30 st)) [w]"
      by (simp add: appends_def append_text_fields setTimeout_def notified_append)
    from appends_trans [OF this Cons [of "append_text w (setTimeout 30 st)"]] False
    show ?thesis by simp
  qed
qed

lemma sse_line_appends:
  "appends st (snd (sse_line P g line (wb, st))) (sse_line_texts P g line)"
  by (auto simp: sse_line_def sse_line_texts_def sse_data_def append_value_text
        appends_refl appends_console appends_text emit_words_appends
        split: option.splits sum.splits json.splits)

lemma sse_lines_appends:
  "appends (snd s) (snd (fold (sse_line P g) ls s)) (concat (map (sse_line_texts P g) ls))"
proof (induction ls arbitrary: s)
  case Nil
  show ?case by (simp add: appends_refl)
next
  case (Cons l ls)
  obtain wb st where s: "s = (wb, st)" by (cases s)
  from appends_trans [OF sse_line_appends [of st P g l wb] Cons [of "sse_line P g l (wb, st)"]] s
  show ?case by simp
qed

section \<open>Chunks and the read loop\<close>

lemma process_chunk_appends:
  "appends (snd s) (snd (process_chunk P provider g chunk s)) (chunk_texts P provider g chunk)"
  by (simp add: process_chunk_def chunk_texts_def ollama_chunk_appends sse_lines_appends)

lemma read_loop_chunks:
  "fst (read_loop P provider g (map Chunk cs) s) = None
   \<and> appends (snd s) (snd (snd (read_loop P provider g (map Chunk cs) s))) (stream_texts P provider g cs)"
proof (induction cs arbitrary: s)
  case Nil
  show ?case by (simp add: stream_texts_def appends_refl)
next
  case (Cons c cs)
  from appends_trans [OF process_chunk_appends [of s P provider g c]]
    Cons [of "process_chunk P provider g c s"]
  show ?case by (simp add: stream_texts_def)
qed

lemma process_chunk_empty: "process_chunk P provider g [] s = s"
  by (simp add: process_chunk_def sse_line_empty ollama_chunk_def ollama_line_empty)

text \<open>A chunk that ends at a line boundary can be cut off the front of a text: the
  lines of the two parts are the lines of the whole, and the empty piece after the
  line feed is skipped. In the Ollama branch this needs that no line of the whole
  throws.\<close>

lemma process_chunk_cut:
  assumes "c = [] \<or> last c = CHR 0x0A"
    and "provider = ''ollama'' \<Longrightarrow> fst (ollama_lines P (split_newline (c @ b)) (snd s)) = None"
  shows "process_chunk P provider g (c @ b) s = process_chunk P provider g b (process_chunk P provider g c s)"
    and "provider = ''ollama'' \<Longrightarrow>
           fst (ollama_lines P (split_newline b) (snd (process_chunk P provider g c s))) = None"
proof -
  show "process_chunk P provider g (c @ b) s = process_chunk P provider g b (process_chunk P provider g c s)"
  proof (cases "c = []")
    case True
    then show ?thesis by (simp add: process_chunk_empty)
  next
    case False
    with assms(1) have l: "last c = CHR 0x0A" by simp
    note sp = split_newline_ends [OF False l]
    show ?thesis
    proof (cases "provider = ''ollama''")
      case False
      then show ?thesis by (simp add: process_chunk_def sp sse_line_empty)
    next
      case True
      obtain r st1 where pre: "ollama_lines P (split_newline (butlast c)) (snd s) = (r, st1)"
        by (cases "ollama_lines P (split_newline (butlast c)) (snd s)")
      from assms(2) [OF True] pre have r: "r = None"
        by (cases r) (simp_all add: sp(1) ollama_lines_append)
      from pre r have first: "ollama_chunk P c (snd s) = st1"
        by (simp add: ollama_chunk_def sp(2) ollama_lines_append ollama_line_empty)
      from assms(2) [OF True] pre r
      have nb: "fst (ollama_lines P (split_newline b) st1) = None"
        by (simp add: sp(1) ollama_lines_append)
      from pre r nb have "ollama_chunk P (c @ b) (snd s) = ollama_chunk P b st1"
        by (cases "ollama_lines P (split_newline b) st1")
           (simp add: ollama_chunk_def sp(1) ollama_lines_append)
      with first show ?thesis using True by (simp add: process_chunk_def)
    qed
  qed
  show "fst (ollama_lines P (split_newline b) (snd (process_chunk P provider g c s))) = None"
    if ol: "provider = ''ollama''"
  proof (cases "c = []")
    case True
    with assms(2) [OF ol] show ?thesis by (simp add: process_chunk_empty)
  next
    case False
    with assms(1) have l: "last c = CHR 0x0A" by simp
    note sp = split_newline_ends [OF False l]
    obtain r st1 where pre: "ollama_lines P (split_newline (butlast c)) (snd s) = (r, st1)"
      by (cases "ollama_lines P (split_newline (butlast c)) (snd s)")
    from assms(2) [OF ol] pre have r: "r = None"
      by (cases r) (simp_all add: sp(1) ollama_lines_append)
    from pre r have "ollama_chunk P c (snd s) = st1"
      by (simp add: ollama_chunk_def sp(2) ollama_lines_append ollama_line_empty)
    moreover from assms(2) [OF ol] pre r
    have "fst (ollama_lines P (split_newline b) st1) = None"
      by (simp add: sp(1) ollama_lines_append)
    ultimately show ?thesis using ol by (simp add: process_chunk_def)
  qed
qed

lemma read_loop_aligned:
  assumes "line_aligned cs"
    and "provider = ''ollama'' \<Longrightarrow> fst (ollama_lines P (split_newline (concat cs)) (snd s)) = None"
  shows "read_loop P provider g (map Chunk cs) s = (None, process_chunk P provider g (concat cs) s)"
  using assms
proof (induction cs arbitrary: s rule: line_aligned.induct)
  case 1
  show ?case by (simp add: process_chunk_empty)
next
  case (2 c)
  show ?case by simp
next
  case (3 c d cs)
  from "3.prems"(1) have c: "c = [] \<or> last c = CHR 0x0A" and al: "line_aligned (d # cs)"
    by simp_all
  have ex: "provider = ''ollama'' \<Longrightarrow>
      fst (ollama_lines P (split_newline (c @ concat (d # cs))) (snd s)) = None"
    using "3.prems"(2) by simp
  note cut = process_chunk_cut [where g = g, OF c ex]
  have "read_loop P provider g (map Chunk (d # cs)) (process_chunk P provider g c s) =
          (None, process_chunk P provider g (concat (d # cs)) (process_chunk P provider g c s))"
    using "3.IH" [OF al, of "process_chunk P provider g c s"] cut(2) by simp
  with cut(1) show ?case by simp
qed



section \<open>The paced emission\<close>

lemma concat_split_from: "concat (split_from cur s) = cur @ s"
  by (induction cur s rule: split_from.induct) simp_all

lemma concat_split_words: "concat (split_words s) = s"
  by (simp add: split_words_def concat_split_from)

lemma concat_filter_nonempty: "concat (filter (\<lambda>w. w \<noteq> []) ws) = concat ws"
  by (induction ws) auto

lemma sub_token_split_from:
  "list_all (\<lambda>c. \<not> is_space c \<and> \<not> is_punct c) cur \<Longrightarrow>
   list_all sub_token (filter (\<lambda>w. w \<noteq> []) (split_from cur s))"
proof (induction cur s rule: split_from.induct)
  case (1 cur)
  then show ?case by (simp add: sub_token_def)
next
  case (2 cur c cs)
  have ws: "list_all is_space (takeWhile is_space cs)"
    by (simp add: list_all_iff) (meson set_takeWhileD)
  show ?case
  proof (cases "is_space c")
    case True
    with 2 ws show ?thesis by (simp add: sub_token_def)
  next
    case False
    with 2 show ?thesis by (cases "is_punct c") (simp_all add: sub_token_def)
  qed
qed

lemma emit_words_buffer: "streamBufferRef (emit_words ws st) = streamBufferRef st @ concat ws"
  by (induction ws arbitrary: st) (simp_all add: append_text_fields setTimeout_def)

lemma emit_words_effects:
  "effects (emit_words ws st) =
     effects st @ paced_effects (streamBufferRef st) (filter (\<lambda>w. w \<noteq> []) ws)"
  by (induction ws arbitrary: st) (simp_all add: append_text_fields setTimeout_def)

section \<open>Chunk boundaries\<close>

text \<open>
  The claim C1 as the specification states it, that every slicing of a response gives
  the same final buffer, does not hold: the handler keeps nothing of a line that a
  chunk boundary cuts. The response \<^verbatim>\<open>{"response":"Hello"}\<close> arrives whole and gives
  \<^verbatim>\<open>Hello\<close>; cut after \<^verbatim>\<open>{"respo\<close>, both pieces fail to parse and the buffer
  receives their raw text.
\<close>

theorem cut_frame_changes_result:
  \<open>concat [''{"respo'', ''nse":"Hello"}\<newline>''] = concat [''{"response":"Hello"}\<newline>'']
   \<and> fst (handleStreamResponse example_parse (map Chunk [''{"response":"Hello"}\<newline>'']) ollama_app)
       = Inr ''Hello''
   \<and> fst (handleStreamResponse example_parse (map Chunk [''{"respo'', ''nse":"Hello"}\<newline>'']) ollama_app)
       = Inr ''{"response":"Hello"}\<newline>''
   \<and> fst (handleStreamResponse example_parse (map Chunk [''{"respo'', ''nse":"Hello"}\<newline>'']) ollama_app)
       \<noteq> fst (handleStreamResponse example_parse (map Chunk [''{"response":"Hello"}\<newline>'']) ollama_app)\<close>
  by (simp add: run_defs)

text \<open>
  C1, amended. Two slicings of the same text in which every chunk but the last ends
  with a line feed (or is empty) give the same result: the same returned text, the
  same state and the same notifications. In the Ollama branch this holds for a text
  none of whose lines throws; in the OpenRouter branch for every text, paced or not.
\<close>

theorem chunks_cut_at_line_ends_agree:
  assumes "line_aligned cs1" and "line_aligned cs2" and "concat cs1 = concat cs2"
    and "apiProvider st = ''ollama'' \<Longrightarrow> fst (ollama_lines P (split_newline (concat cs1)) st) = None"
  shows "handleStreamResponse P (map Chunk cs1) st = handleStreamResponse P (map Chunk cs2) st"
proof -
  let ?g = "str_includes (selectedLLM st) ''gemini''"
  have "read_loop P (apiProvider st) ?g (map Chunk cs1) ([], st)
        = (None, process_chunk P (apiProvider st) ?g (concat cs1) ([], st))"
    using assms(1,4) by (intro read_loop_aligned) simp_all
  moreover have "read_loop P (apiProvider st) ?g (map Chunk cs2) ([], st)
        = (None, process_chunk P (apiProvider st) ?g (concat cs2) ([], st))"
    using assms(2,3,4) by (intro read_loop_aligned) simp_all
  ultimately show ?thesis
    using assms(3) by (simp add: handleStreamResponse_def)
qed

theorem chunks_cut_at_line_ends_agree_witness:
  \<open>line_aligned [''{"message":{"content":"Hel"}}\<newline>'', ''{"message":{"content":"lo"}}\<newline>'']
   \<and> line_aligned [''{"message":{"content":"Hel"}}\<newline>{"message":{"content":"lo"}}\<newline>'']
   \<and> concat [''{"message":{"content":"Hel"}}\<newline>'', ''{"message":{"content":"lo"}}\<newline>'']
       = concat [''{"message":{"content":"Hel"}}\<newline>{"message":{"content":"lo"}}\<newline>'']
   \<and> fst (ollama_lines example_parse
         (split_newline (concat [''{"message":{"content":"Hel"}}\<newline>'', ''{"message":{"content":"lo"}}\<newline>'']))
         ollama_app) = None
   \<and> handleStreamResponse example_parse
        (map Chunk [''{"message":{"content":"Hel"}}\<newline>'', ''{"message":{"content":"lo"}}\<newline>'']) ollama_app
       = handleStreamResponse example_parse
        (map Chunk [''{"message":{"content":"Hel"}}\<newline>{"message":{"content":"lo"}}\<newline>'']) ollama_app\<close>
proof -
  have h1: \<open>line_aligned [''{"message":{"content":"Hel"}}\<newline>'', ''{"message":{"content":"lo"}}\<newline>'']\<close>
    by simp
  have h2: \<open>line_aligned [''{"message":{"content":"Hel"}}\<newline>{"message":{"content":"lo"}}\<newline>'']\<close>
    by simp
  have h3: \<open>concat [''{"message":{"content":"Hel"}}\<newline>'', ''{"message":{"content":"lo"}}\<newline>'']
       = concat [''{"message":{"content":"Hel"}}\<newline>{"message":{"content":"lo"}}\<newline>'']\<close>
    by simp
  have h4: \<open>fst (ollama_lines example_parse
         (split_newline (concat [''{"message":{"content":"Hel"}}\<newline>'', ''{"message":{"content":"lo"}}\<newline>'']))
         ollama_app) = None\<close>
    by (simp add: run_defs)
  show ?thesis
    using chunks_cut_at_line_ends_agree [where P = example_parse and st = ollama_app, OF h1 h2 h3 h4]
      h1 h2 h3 h4
    by blast
qed

section \<open>The buffer and the fragments\<close>

text \<open>
  The claim C2 as the specification states it makes the buffer the concatenation of
  the fragments of the frames received, wherever the chunk boundaries fall. It does
  not hold: two frames with the contents \<^verbatim>\<open>A\<close> and \<^verbatim>\<open>B\<close> arrive in two chunks, the
  boundary inside the second frame; all of both frames has arrived, their fragments
  are \<^verbatim>\<open>A\<close> and \<^verbatim>\<open>B\<close>, and the buffer is \<^verbatim>\<open>A\<close>.
\<close>

theorem cut_frame_loses_fragment:
  \<open>streamBufferRef (snd (handleStreamResponse example_parse
       [Chunk ''data: {"choices":[{"delta":{"content":"A"}}]}\<newline>da'',
        Chunk ''ta: {"choices":[{"delta":{"content":"B"}}]}\<newline>''] openrouter_app)) = ''A''
   \<and> concat (spec_sse_fragments example_parse
        (''data: {"choices":[{"delta":{"content":"A"}}]}\<newline>da'' @
         ''ta: {"choices":[{"delta":{"content":"B"}}]}\<newline>'')) = ''AB''
   \<and> streamBufferRef (snd (handleStreamResponse example_parse
       [Chunk ''data: {"choices":[{"delta":{"content":"A"}}]}\<newline>da'',
        Chunk ''ta: {"choices":[{"delta":{"content":"B"}}]}\<newline>''] openrouter_app))
      \<noteq> concat (spec_sse_fragments example_parse
        (''data: {"choices":[{"delta":{"content":"A"}}]}\<newline>da'' @
         ''ta: {"choices":[{"delta":{"content":"B"}}]}\<newline>''))\<close>
  by (simp add: run_defs spec_sse_fragments_def spec_sse_line_def)

text \<open>
  C2, amended. For every sequence of chunks, in both branches, paced or not, the loop
  ends without an exception and, at the end of every chunk, the buffer is the buffer
  the stream started with followed by the texts appended so far, in the order of
  arrival; the observer has been notified of exactly the successive values of the
  buffer, one after each text. Hence the returned text is that buffer followed by
  what the holding buffer still holds. The texts are those of the lines of each chunk
  taken on its own (\<open>stream_texts\<close>): a frame that a chunk boundary cuts is not put
  together again, and in the Ollama branch a chunk with a line that throws gives the
  texts of the lines before it and then its whole raw text.
\<close>

theorem buffer_is_appended_texts:
  "fst (read_loop P provider g (map Chunk cs) (wb, st)) = None
   \<and> streamBufferRef (snd (snd (read_loop P provider g (map Chunk cs) (wb, st))))
       = streamBufferRef st @ concat (stream_texts P provider g cs)
   \<and> notified (effects (snd (snd (read_loop P provider g (map Chunk cs) (wb, st)))))
       = notified (effects st) @ running (streamBufferRef st) (stream_texts P provider g cs)
   \<and> fst (handleStreamResponse P (map Chunk cs) st)
       = Inr (streamBufferRef st
              @ concat (stream_texts P (apiProvider st) (str_includes (selectedLLM st) ''gemini'') cs)
              @ fst (snd (read_loop P (apiProvider st) (str_includes (selectedLLM st) ''gemini'')
                       (map Chunk cs) ([], st))))"
proof -
  note loop = read_loop_chunks [of P provider g cs "(wb, st)"]
  let ?g = "str_includes (selectedLLM st) ''gemini''"
  obtain r w st1 where run: "read_loop P (apiProvider st) ?g (map Chunk cs) ([], st) = (r, w, st1)"
    by (cases "read_loop P (apiProvider st) ?g (map Chunk cs) ([], st)")
  from read_loop_chunks [of P "apiProvider st" ?g cs "([], st)"] run
  have r: "r = None"
    and b: "streamBufferRef st1 = streamBufferRef st @ concat (stream_texts P (apiProvider st) ?g cs)"
    by (simp_all add: appends_def)
  have "fst (handleStreamResponse P (map Chunk cs) st) = Inr (streamBufferRef st1 @ w)"
    using run r by (simp add: handleStreamResponse_def releaseLock_def append_text_fields)
  with b run loop show ?thesis by (simp add: appends_def)
qed

theorem buffer_is_appended_texts_witness:
  \<open>stream_texts example_parse ''ollama'' False
       [''{"message":{"content":"Hel"}}\<newline>'', ''{"message":{"content":"lo"}}\<newline>''] = [''Hel'', ''lo'']
   \<and> streamBufferRef (snd (snd (read_loop example_parse ''ollama'' False
        (map Chunk [''{"message":{"content":"Hel"}}\<newline>'', ''{"message":{"content":"lo"}}\<newline>''])
        ([], ollama_app)))) = ''Hello''
   \<and> notified (effects (snd (snd (read_loop example_parse ''ollama'' False
        (map Chunk [''{"message":{"content":"Hel"}}\<newline>'', ''{"message":{"content":"lo"}}\<newline>''])
        ([], ollama_app))))) = [''Hel'', ''Hello'']\<close>
proof -
  have texts: \<open>stream_texts example_parse ''ollama'' False
       [''{"message":{"content":"Hel"}}\<newline>'', ''{"message":{"content":"lo"}}\<newline>''] = [''Hel'', ''lo'']\<close>
    by (simp add: stream_texts_def chunk_texts_def ollama_chunk_texts_def ollama_line_text_def
          trims_to_empty_def is_space_def example_parse_def example_frames_def)
  have start: "streamBufferRef ollama_app = []" "effects ollama_app = []"
    by (simp_all add: ollama_app_def initial_app_def)
  show ?thesis
    using buffer_is_appended_texts [of example_parse "''ollama''" False
        \<open>[''{"message":{"content":"Hel"}}\<newline>'', ''{"message":{"content":"lo"}}\<newline>'']\<close>
        "[]" ollama_app]
      texts start
    by simp
qed

section \<open>Lines that do not parse, in the Ollama branch\<close>

text \<open>
  The claim C3 as the specification states it has the last, incomplete line of a chunk
  kept and put in front of the next chunk. The handler has no such fragment: with the
  record \<^verbatim>\<open>{"response":"Hello"}\<close> cut after \<^verbatim>\<open>Hel\<close>, the frame parser of the
  specification gives \<^verbatim>\<open>Hello\<close>, and the handler the raw text of the two pieces.
\<close>

theorem ollama_no_pending_fragment:
  \<open>spec_ldjson_stream example_parse [''{"response":"Hel'', ''lo"}\<newline>''] = ([], ''Hello'')
   \<and> streamBufferRef (snd (handleStreamResponse example_parse
        [Chunk ''{"response":"Hel'', Chunk ''lo"}\<newline>''] ollama_app)) = ''{"response":"Hello"}\<newline>''
   \<and> streamBufferRef (snd (handleStreamResponse example_parse
        [Chunk ''{"response":"Hel'', Chunk ''lo"}\<newline>''] ollama_app))
      \<noteq> snd (spec_ldjson_stream example_parse [''{"response":"Hel'', ''lo"}\<newline>''])\<close>
  by (simp add: run_defs spec_ldjson_stream_def spec_ldjson_chunk_def spec_ldjson_line_def spec_record_text_def)

text \<open>
  C3, amended. In the Ollama branch every line of a chunk is parsed when the chunk
  arrives, the last one too, and nothing is kept for the next chunk. When the last
  line is not blank and does not parse, and the lines before it have run without an
  exception to the state \<open>st1\<close>, the chunk appends its whole text to the buffer of
  \<open>st1\<close>; the chunk that follows is then split and parsed on its own.
\<close>

theorem ollama_last_line_not_retained:
  assumes "\<not> trims_to_empty (last (split_newline chunk))"
    and "P (last (split_newline chunk)) = None"
    and "ollama_lines P (butlast (split_newline chunk)) st = (None, st1)"
  shows "ollama_chunk P chunk st = append_text chunk st1
         \<and> read_loop P ''ollama'' g (Chunk chunk # Chunk following # rs) (wb, st)
             = read_loop P ''ollama'' g rs (wb, ollama_chunk P following (append_text chunk st1))"
proof -
  have "split_newline chunk = butlast (split_newline chunk) @ last (split_newline chunk) # []"
    by (simp add: split_newline_nonempty)
  then have "ollama_lines P (split_newline chunk) st = (Some SyntaxError, st1)"
    using ollama_lines_stop [OF assms(3,1,2), of "[]"] by simp
  then have "ollama_chunk P chunk st = append_text chunk st1"
    by (simp add: ollama_chunk_def)
  then show ?thesis by (simp add: process_chunk_def)
qed

theorem ollama_last_line_not_retained_witness:
  \<open>\<not> trims_to_empty (last (split_newline ''{"response":"X"}\<newline>{"respo''))
   \<and> example_parse (last (split_newline ''{"response":"X"}\<newline>{"respo'')) = None
   \<and> ollama_lines example_parse (butlast (split_newline ''{"response":"X"}\<newline>{"respo'')) ollama_app
       = (None, append_text ''X'' ollama_app)
   \<and> ollama_chunk example_parse ''{"response":"X"}\<newline>{"respo'' ollama_app
       = append_text ''{"response":"X"}\<newline>{"respo'' (append_text ''X'' ollama_app)\<close>
proof -
  have h1: \<open>\<not> trims_to_empty (last (split_newline ''{"response":"X"}\<newline>{"respo''))\<close>
    by (simp add: trims_to_empty_def is_space_def)
  have h2: \<open>example_parse (last (split_newline ''{"response":"X"}\<newline>{"respo'')) = None\<close>
    by (simp add: example_parse_def example_frames_def)
  have h3: \<open>ollama_lines example_parse (butlast (split_newline ''{"response":"X"}\<newline>{"respo'')) ollama_app
       = (None, append_text ''X'' ollama_app)\<close>
    by (simp add: run_defs)
  show ?thesis
    using ollama_last_line_not_retained [where P = example_parse and st = ollama_app, OF h1 h2 h3]
      h1 h2 h3
    by blast
qed

text \<open>
  The claim C4 as the specification states it has the raw text of the failing line,
  and of that line only, appended, and the other lines of the chunk processed. In the
  handler the \<^verbatim>\<open>try\<close> encloses the loop over the lines and the \<^verbatim>\<open>catch\<close> appends
  the chunk: for the chunk of the lines \<^verbatim>\<open>not json\<close> and \<^verbatim>\<open>{"response":"X"}\<close> the
  specification gives \<^verbatim>\<open>not jsonX\<close>, and the handler the raw text of the chunk, the
  record after the failing line unread.
\<close>

theorem ollama_failed_line_stops_chunk:
  \<open>spec_ldjson_stream example_parse [''not json\<newline>{"response":"X"}\<newline>''] = ([], ''not jsonX'')
   \<and> streamBufferRef (snd (handleStreamResponse example_parse
        [Chunk ''not json\<newline>{"response":"X"}\<newline>''] ollama_app)) = ''not json\<newline>{"response":"X"}\<newline>''
   \<and> streamBufferRef (snd (handleStreamResponse example_parse
        [Chunk ''not json\<newline>{"response":"X"}\<newline>''] ollama_app))
      \<noteq> snd (spec_ldjson_stream example_parse [''not json\<newline>{"response":"X"}\<newline>''])\<close>
  by (simp add: run_defs spec_ldjson_stream_def spec_ldjson_chunk_def spec_ldjson_line_def spec_record_text_def)

text \<open>
  C4, amended. In the Ollama branch a line that fails to parse is not fatal to the
  stream, and it ends the processing of its chunk: when the lines before it have run
  without an exception to the state \<open>st1\<close>, the whole text of the chunk is appended to
  the buffer of \<open>st1\<close> with one notification, whatever lines come after the failing
  one, and the stream goes on; a stream that ends there returns that buffer.
\<close>

theorem ollama_failed_line_appends_chunk:
  assumes "split_newline chunk = pre @ bad # post"
    and "ollama_lines P pre st = (None, st1)"
    and "\<not> trims_to_empty bad" and "P bad = None" and "apiProvider st = ''ollama''"
  shows "ollama_chunk P chunk st = append_text chunk st1
         \<and> read_loop P ''ollama'' g (Chunk chunk # rs) (wb, st)
             = read_loop P ''ollama'' g rs (wb, append_text chunk st1)
         \<and> handleStreamResponse P [Chunk chunk] st
             = (Inr (streamBufferRef st1 @ chunk), releaseLock (append_text chunk st1))"
proof -
  have "ollama_lines P (split_newline chunk) st = (Some SyntaxError, st1)"
    using ollama_lines_stop [OF assms(2,3,4)] assms(1) by simp
  then have "ollama_chunk P chunk st = append_text chunk st1"
    by (simp add: ollama_chunk_def)
  then show ?thesis
    using assms(5)
    by (simp add: handleStreamResponse_def process_chunk_def releaseLock_def append_text_fields)
qed

theorem ollama_failed_line_appends_chunk_witness:
  \<open>split_newline ''{"response":"X"}\<newline>not json\<newline>{"response":"Hello"}\<newline>''
     = [''{"response":"X"}''] @ ''not json'' # [''{"response":"Hello"}'', []]
   \<and> ollama_lines example_parse [''{"response":"X"}''] ollama_app = (None, append_text ''X'' ollama_app)
   \<and> \<not> trims_to_empty ''not json'' \<and> example_parse ''not json'' = None
   \<and> apiProvider ollama_app = ''ollama''
   \<and> handleStreamResponse example_parse [Chunk ''{"response":"X"}\<newline>not json\<newline>{"response":"Hello"}\<newline>''] ollama_app
       = (Inr (''X'' @ ''{"response":"X"}\<newline>not json\<newline>{"response":"Hello"}\<newline>''),
          releaseLock (append_text ''{"response":"X"}\<newline>not json\<newline>{"response":"Hello"}\<newline>''
            (append_text ''X'' ollama_app)))\<close>
proof -
  have h1: \<open>split_newline ''{"response":"X"}\<newline>not json\<newline>{"response":"Hello"}\<newline>''
     = [''{"response":"X"}''] @ ''not json'' # [''{"response":"Hello"}'', []]\<close>
    by simp
  have h2: \<open>ollama_lines example_parse [''{"response":"X"}''] ollama_app = (None, append_text ''X'' ollama_app)\<close>
    by (simp add: run_defs)
  have h3: "\<not> trims_to_empty ''not json''"
    by (simp add: trims_to_empty_def is_space_def)
  have h4: "example_parse ''not json'' = None"
    by (simp add: example_parse_def example_frames_def)
  have h5: "apiProvider ollama_app = ''ollama''"
    by (simp add: ollama_app_def initial_app_def)
  have buf: "streamBufferRef (append_text ''X'' ollama_app) = ''X''"
    by (simp add: append_text_fields ollama_app_def initial_app_def)
  show ?thesis
    using ollama_failed_line_appends_chunk [where P = example_parse and st = ollama_app, OF h1 h2 h3 h4 h5]
      h1 h2 h3 h4 h5 buf
    by simp
qed

section \<open>The paced emission of a content\<close>

text \<open>
  C5. With a model whose name contains \<^verbatim>\<open>gemini\<close>, a record of the OpenRouter branch
  whose first choice carries the string \<open>s\<close> is emitted in sub-tokens: \<open>s\<close> is split at
  runs of white space and at single punctuation characters, each sub-token that is
  not empty is appended after a wait of 30 ms and notified, in order. The sub-tokens
  concatenate to \<open>s\<close>, each is a run of white space, one punctuation character or a run
  of other characters, and the holding buffer is empty afterwards, so that the flush
  at the end of the stream adds nothing: the stream returns the buffer followed by \<open>s\<close>.
  The text \<^verbatim>\<open>Hi, world!\<close> is emitted as \<^verbatim>\<open>Hi\<close>, the comma, a space, \<^verbatim>\<open>world\<close> and
  the exclamation mark.
\<close>

theorem paced_emission_preserves_text:
  assumes "\<not> str_includes line ''[DONE]''" and "startsWith line ''data: ''"
    and "P (drop 6 line) = Some (JObj kvs)" and "map_of kvs ''choices'' = Some (JArr (JObj c # cs))"
    and "map_of c ''delta'' = Some (JObj d)" and "map_of d ''content'' = Some (JStr s)" and "s \<noteq> []"
    and "CHR 0x0A \<notin> set line" and "apiProvider st \<noteq> ''ollama''"
    and "str_includes (selectedLLM st) ''gemini''"
  shows \<open>handleStreamResponse P [Chunk line] st =
            (Inr (streamBufferRef st @ s), releaseLock (emit_words (split_words s) st))
         \<and> effects (emit_words (split_words s) st) =
             effects st @ paced_effects (streamBufferRef st) (filter (\<lambda>w. w \<noteq> []) (split_words s))
         \<and> concat (filter (\<lambda>w. w \<noteq> []) (split_words s)) = s
         \<and> list_all sub_token (filter (\<lambda>w. w \<noteq> []) (split_words s))
         \<and> filter (\<lambda>w. w \<noteq> []) (split_words ''Hi, world!'') = [''Hi'', '','', '' '', ''world'', ''!'']\<close>
proof -
  have line: "sse_line P True line ([], st) = ([], emit_words (split_words s) st)"
    using sse_line_content [where g = True and P = P and line = line, OF assms(1-7)] by simp
  have "split_newline line = [line]"
    using assms(8) by (rule split_newline_single)
  then have run: "handleStreamResponse P [Chunk line] st =
            (Inr (streamBufferRef st @ s), releaseLock (emit_words (split_words s) st))"
    using assms(9,10) line
    by (simp add: handleStreamResponse_def process_chunk_def releaseLock_def emit_words_buffer
          concat_split_words)
  have shape: "list_all sub_token (filter (\<lambda>w. w \<noteq> []) (split_words s))"
    by (simp add: split_words_def sub_token_split_from)
  have ex: "filter (\<lambda>w. w \<noteq> []) (split_words ''Hi, world!'') = [''Hi'', '','', '' '', ''world'', ''!'']"
    by (simp add: split_words_def is_space_def is_punct_def)
  show ?thesis
    using run shape ex by (simp add: emit_words_effects concat_filter_nonempty concat_split_words)
qed

theorem paced_emission_preserves_text_witness:
  \<open>\<not> str_includes ''data: {"choices":[{"delta":{"content":"Hi, world!"}}]}'' ''[DONE]''
   \<and> startsWith ''data: {"choices":[{"delta":{"content":"Hi, world!"}}]}'' ''data: ''
   \<and> example_parse (drop 6 ''data: {"choices":[{"delta":{"content":"Hi, world!"}}]}'')
       = Some (JObj [(''choices'', JArr [JObj [(''delta'', JObj [(''content'', JStr ''Hi, world!'')])]])])
   \<and> CHR 0x0A \<notin> set ''data: {"choices":[{"delta":{"content":"Hi, world!"}}]}''
   \<and> apiProvider gemini_app \<noteq> ''ollama''
   \<and> str_includes (selectedLLM gemini_app) ''gemini''
   \<and> handleStreamResponse example_parse [Chunk ''data: {"choices":[{"delta":{"content":"Hi, world!"}}]}''] gemini_app
       = (Inr ''Hi, world!'', releaseLock (emit_words (split_words ''Hi, world!'') gemini_app))
   \<and> effects (emit_words (split_words ''Hi, world!'') gemini_app)
       = [Timeout 30, SetStreamedResponse ''Hi'', Timeout 30, SetStreamedResponse ''Hi,'',
          Timeout 30, SetStreamedResponse ''Hi, '', Timeout 30, SetStreamedResponse ''Hi, world'',
          Timeout 30, SetStreamedResponse ''Hi, world!'']\<close>
proof -
  have h2: \<open>\<not> str_includes ''data: {"choices":[{"delta":{"content":"Hi, world!"}}]}'' ''[DONE]''\<close>
    by (simp add: startsWith_def)
  have h3: \<open>startsWith ''data: {"choices":[{"delta":{"content":"Hi, world!"}}]}'' ''data: ''\<close>
    by (simp add: startsWith_def)
  have h4: \<open>example_parse (drop 6 ''data: {"choices":[{"delta":{"content":"Hi, world!"}}]}'')
       = Some (JObj [(''choices'', JArr [JObj [(''delta'', JObj [(''content'', JStr ''Hi, world!'')])]])])\<close>
    by (simp add: example_parse_def example_frames_def)
  have h5: "map_of [(''choices'', JArr [JObj [(''delta'', JObj [(''content'', JStr ''Hi, world!'')])]])] ''choices''
       = Some (JArr (JObj [(''delta'', JObj [(''content'', JStr ''Hi, world!'')])] # []))"
    by simp
  have h6: "map_of [(''delta'', JObj [(''content'', JStr ''Hi, world!'')])] ''delta''
       = Some (JObj [(''content'', JStr ''Hi, world!'')])"
    by simp
  have h7: "map_of [(''content'', JStr ''Hi, world!'')] ''content'' = Some (JStr ''Hi, world!'')" by simp
  have h8: "''Hi, world!'' \<noteq> []" by simp
  have h9: \<open>CHR 0x0A \<notin> set ''data: {"choices":[{"delta":{"content":"Hi, world!"}}]}''\<close> by simp
  have h10: "apiProvider gemini_app \<noteq> ''ollama''"
    by (simp add: gemini_app_def initial_app_def)
  have h11: "str_includes (selectedLLM gemini_app) ''gemini''"
    by (simp add: gemini_app_def initial_app_def startsWith_def)
  have buf: "streamBufferRef gemini_app = []" "effects gemini_app = []"
    by (simp_all add: gemini_app_def initial_app_def)
  show ?thesis
    using paced_emission_preserves_text [where P = example_parse and st = gemini_app,
        OF h2 h3 h4 h5 h6 h7 h8 h9 h10 h11]
      h2 h3 h4 h9 h10 h11 buf
    by simp
qed

section \<open>Records with a content\<close>

text \<open>
  C6. In the OpenRouter branch a line that begins with \<^verbatim>\<open>data: \<close> (and passes the
  filter of the sentinel) whose payload parses to an object with a list of choices
  that is not empty, the first choice holding under \<^verbatim>\<open>delta\<close> a \<^verbatim>\<open>content\<close> string
  \<open>s\<close> that is not empty, appends \<open>s\<close> to the buffer: at once with one notification, or
  by the paced emission for a gemini model. With a parser that reads the frame
  \<^verbatim>\<open>{"choices":[{"delta":{"content":"A"}}]}\<close> as the object it denotes, the chunk
  \<^verbatim>\<open>data: {"choices":[{"delta":{"content":"A"}}]}\<close> followed by the chunk
  \<^verbatim>\<open>data: [DONE]\<close>, each ended by two line feeds, adds \<^verbatim>\<open>A\<close> to the buffer and
  notifies the observer once, of that buffer; the stream returns it without an
  exception.
\<close>

theorem sse_record_appends_first_choice:
  assumes "\<not> str_includes line ''[DONE]''" and "startsWith line ''data: ''"
    and "P (drop 6 line) = Some (JObj kvs)" and "map_of kvs ''choices'' = Some (JArr (JObj c # cs))"
    and "map_of c ''delta'' = Some (JObj d)" and "map_of d ''content'' = Some (JStr s)" and "s \<noteq> []"
    and frame: \<open>P ''{"choices":[{"delta":{"content":"A"}}]}''
        = Some (JObj [(''choices'', JArr [JObj [(''delta'', JObj [(''content'', JStr ''A'')])]])])\<close>
    and sse: "apiProvider st0 \<noteq> ''ollama''"
  shows \<open>sse_line P g line (wb, st) =
           (if g then ([], emit_words (split_words s) st) else (wb, append_text s st))
         \<and> streamBufferRef (snd (sse_line P g line (wb, st))) = streamBufferRef st @ s
         \<and> fst (handleStreamResponse P
              [Chunk ''data: {"choices":[{"delta":{"content":"A"}}]}\<newline>\<newline>'',
               Chunk ''data: [DONE]\<newline>\<newline>''] st0)
            = Inr (streamBufferRef st0 @ ''A'')
         \<and> notified (effects (snd (handleStreamResponse P
              [Chunk ''data: {"choices":[{"delta":{"content":"A"}}]}\<newline>\<newline>'',
               Chunk ''data: [DONE]\<newline>\<newline>''] st0)))
            = notified (effects st0) @ [streamBufferRef st0 @ ''A'']\<close>
proof -
  have line: "sse_line P g line (wb, st) =
           (if g then ([], emit_words (split_words s) st) else (wb, append_text s st))"
    using assms(1-7) by (rule sse_line_content)
  let ?g = "str_includes (selectedLLM st0) ''gemini''"
  let ?f = \<open>''data: {"choices":[{"delta":{"content":"A"}}]}''\<close>
  have f1: \<open>\<not> str_includes ?f ''[DONE]''\<close> \<open>startsWith ?f ''data: ''\<close>
    by (simp_all add: startsWith_def)
  have f2: \<open>P (drop 6 ?f) = Some (JObj [(''choices'', JArr [JObj [(''delta'', JObj [(''content'', JStr ''A'')])]])])\<close>
    using frame by simp
  have first: "sse_line P ?g ?f ([], st0) =
      (if ?g then ([], emit_words (split_words ''A'') st0) else ([], append_text ''A'' st0))"
    using sse_line_content [where P = P and line = ?f and g = ?g and wb = "[]" and st = st0
        and s = "''A''" and c = "[(''delta'', JObj [(''content'', JStr ''A'')])]" and cs = "[]"
        and d = "[(''content'', JStr ''A'')]", OF f1 f2]
    by simp
  have words: "emit_words (split_words ''A'') st0 = append_text ''A'' (setTimeout 30 st0)"
    by (simp add: split_words_def is_space_def is_punct_def)
  have c1: \<open>process_chunk P (apiProvider st0) ?g (?f @ ''\<newline>\<newline>'') ([], st0) = sse_line P ?g ?f ([], st0)\<close>
    using sse by (simp add: process_chunk_def sse_line_empty)
  have c2: \<open>process_chunk P (apiProvider st0) ?g ''data: [DONE]\<newline>\<newline>'' s = s\<close> for s
    using sse by (simp add: process_chunk_def sse_line_empty sse_line_skipped startsWith_def)
  have run: "read_loop P (apiProvider st0) ?g
      [Chunk (?f @ ''\<newline>\<newline>''), Chunk ''data: [DONE]\<newline>\<newline>''] ([], st0)
      = (None, sse_line P ?g ?f ([], st0))"
    by (simp only: read_loop.simps c1 c2)
  have res: "handleStreamResponse P [Chunk (?f @ ''\<newline>\<newline>''), Chunk ''data: [DONE]\<newline>\<newline>''] st0
     = (Inr (streamBufferRef st0 @ ''A''),
        releaseLock (if ?g then append_text ''A'' (setTimeout 30 st0) else append_text ''A'' st0))"
    unfolding handleStreamResponse_def Let_def run first words
    by (simp add: append_text_fields releaseLock_def setTimeout_def)
  have "notified (effects (releaseLock (if ?g then append_text ''A'' (setTimeout 30 st0) else append_text ''A'' st0)))
      = notified (effects st0) @ [streamBufferRef st0 @ ''A'']"
    by (simp add: append_text_fields releaseLock_def setTimeout_def notified_append)
  with res line show ?thesis
    by (simp add: emit_words_buffer concat_split_words append_text_fields)
qed

theorem sse_record_appends_first_choice_witness:
  \<open>\<not> str_includes ''data: {"choices":[{"delta":{"content":"B"}}]}'' ''[DONE]''
   \<and> startsWith ''data: {"choices":[{"delta":{"content":"B"}}]}'' ''data: ''
   \<and> example_parse (drop 6 ''data: {"choices":[{"delta":{"content":"B"}}]}'')
       = Some (JObj [(''choices'', JArr [JObj [(''delta'', JObj [(''content'', JStr ''B'')])]])])
   \<and> example_parse ''{"choices":[{"delta":{"content":"A"}}]}''
       = Some (JObj [(''choices'', JArr [JObj [(''delta'', JObj [(''content'', JStr ''A'')])]])])
   \<and> apiProvider openrouter_app \<noteq> ''ollama''
   \<and> sse_line example_parse False ''data: {"choices":[{"delta":{"content":"B"}}]}'' ([], openrouter_app)
       = ([], append_text ''B'' openrouter_app)
   \<and> fst (handleStreamResponse example_parse
        [Chunk ''data: {"choices":[{"delta":{"content":"A"}}]}\<newline>\<newline>'',
         Chunk ''data: [DONE]\<newline>\<newline>''] openrouter_app) = Inr ''A''
   \<and> notified (effects (snd (handleStreamResponse example_parse
        [Chunk ''data: {"choices":[{"delta":{"content":"A"}}]}\<newline>\<newline>'',
         Chunk ''data: [DONE]\<newline>\<newline>''] openrouter_app))) = [''A'']\<close>
proof -
  have h2: \<open>\<not> str_includes ''data: {"choices":[{"delta":{"content":"B"}}]}'' ''[DONE]''\<close>
    by (simp add: startsWith_def)
  have h3: \<open>startsWith ''data: {"choices":[{"delta":{"content":"B"}}]}'' ''data: ''\<close>
    by (simp add: startsWith_def)
  have h4: \<open>example_parse (drop 6 ''data: {"choices":[{"delta":{"content":"B"}}]}'')
       = Some (JObj [(''choices'', JArr [JObj [(''delta'', JObj [(''content'', JStr ''B'')])]])])\<close>
    by (simp add: example_parse_def example_frames_def)
  have h5: "map_of [(''choices'', JArr [JObj [(''delta'', JObj [(''content'', JStr ''B'')])]])] ''choices''
       = Some (JArr (JObj [(''delta'', JObj [(''content'', JStr ''B'')])] # []))"
    by simp
  have h6: "map_of [(''delta'', JObj [(''content'', JStr ''B'')])] ''delta'' = Some (JObj [(''content'', JStr ''B'')])"
    by simp
  have h7: "map_of [(''content'', JStr ''B'')] ''content'' = Some (JStr ''B'')" by simp
  have h8: "''B'' \<noteq> []" by simp
  have h9: \<open>example_parse ''{"choices":[{"delta":{"content":"A"}}]}''
       = Some (JObj [(''choices'', JArr [JObj [(''delta'', JObj [(''content'', JStr ''A'')])]])])\<close>
    by (simp add: example_parse_def example_frames_def)
  have h10: "apiProvider openrouter_app \<noteq> ''ollama''"
    by (simp add: openrouter_app_def initial_app_def)
  have start: "streamBufferRef openrouter_app = []" "effects openrouter_app = []"
    by (simp_all add: openrouter_app_def initial_app_def)
  show ?thesis
    using sse_record_appends_first_choice
        [where P = example_parse and g = False and wb = "[]" and st = openrouter_app
           and ?st0.0 = openrouter_app,
         OF h2 h3 h4 h5 h6 h7 h8 h9 h10]
      h2 h3 h4 h9 h10 start
    by simp
qed

text \<open>
  C7. In the Ollama branch a line that parses to a record with a \<^verbatim>\<open>message\<close> object
  holding a \<^verbatim>\<open>content\<close> string, or with no (or a falsy) \<^verbatim>\<open>message\<close> and a
  \<^verbatim>\<open>response\<close> string, appends exactly that string to the buffer and notifies the
  observer of the new buffer (an empty \<^verbatim>\<open>response\<close> changes nothing). With a parser
  that reads the two frames as the objects they denote, the chunks
  \<^verbatim>\<open>{"message":{"content":"Hel"}}\<close> and \<^verbatim>\<open>{"message":{"content":"lo"}}\<close>, each ended
  by a line feed, and then the end of the stream: the observer is notified of the
  buffer with \<^verbatim>\<open>Hel\<close> added, then with \<^verbatim>\<open>Hello\<close> added, and the stream returns the
  latter.
\<close>

theorem ollama_record_appends_content:
  assumes "\<not> trims_to_empty line" and "P line = Some (JObj kvs)"
    and "(map_of kvs ''message'' = Some (JObj m) \<and> map_of m ''content'' = Some (JStr s))
         \<or> (\<not> truthy (map_of kvs ''message'') \<and> map_of kvs ''response'' = Some (JStr s))"
    and hel: \<open>P ''{"message":{"content":"Hel"}}'' = Some (JObj [(''message'', JObj [(''content'', JStr ''Hel'')])])\<close>
    and lo: \<open>P ''{"message":{"content":"lo"}}'' = Some (JObj [(''message'', JObj [(''content'', JStr ''lo'')])])\<close>
    and ollama: "apiProvider st0 = ''ollama''"
  shows \<open>ollama_line P line st =
           Inr (if truthy (map_of kvs ''message'') \<or> s \<noteq> [] then append_text s st else st)
         \<and> streamBufferRef (append_text s st) = streamBufferRef st @ s
         \<and> effects (append_text s st) = effects st @ [SetStreamedResponse (streamBufferRef st @ s)]
         \<and> fst (handleStreamResponse P
              [Chunk ''{"message":{"content":"Hel"}}\<newline>'', Chunk ''{"message":{"content":"lo"}}\<newline>''] st0)
            = Inr (streamBufferRef st0 @ ''Hello'')
         \<and> notified (effects (snd (handleStreamResponse P
              [Chunk ''{"message":{"content":"Hel"}}\<newline>'', Chunk ''{"message":{"content":"lo"}}\<newline>''] st0)))
            = notified (effects st0) @ [streamBufferRef st0 @ ''Hel'', streamBufferRef st0 @ ''Hello'']\<close>
proof -
  have line: "ollama_line P line st =
           Inr (if truthy (map_of kvs ''message'') \<or> s \<noteq> [] then append_text s st else st)"
    using assms(1-3) by (rule ollama_line_record)
  let ?h = \<open>''{"message":{"content":"Hel"}}''\<close>
  let ?l = \<open>''{"message":{"content":"lo"}}''\<close>
  let ?g = "str_includes (selectedLLM st0) ''gemini''"
  have nb: "\<not> trims_to_empty ?h" "\<not> trims_to_empty ?l"
    by (simp_all add: trims_to_empty_def is_space_def)
  have l1: "ollama_line P ?h st' = Inr (append_text ''Hel'' st')" for st'
    using ollama_line_record [where P = P and line = ?h and m = "[(''content'', JStr ''Hel'')]"
        and s = "''Hel''" and st = st', OF nb(1) hel]
    by simp
  have l2: "ollama_line P ?l st' = Inr (append_text ''lo'' st')" for st'
    using ollama_line_record [where P = P and line = ?l and m = "[(''content'', JStr ''lo'')]"
        and s = "''lo''" and st = st', OF nb(2) lo]
    by simp
  have c1: \<open>ollama_chunk P (?h @ ''\<newline>'') st' = append_text ''Hel'' st'\<close> for st'
    by (simp add: ollama_chunk_def l1 ollama_line_empty)
  have c2: \<open>ollama_chunk P (?l @ ''\<newline>'') st' = append_text ''lo'' st'\<close> for st'
    by (simp add: ollama_chunk_def l2 ollama_line_empty)
  have run: "read_loop P (apiProvider st0) ?g [Chunk (?h @ ''\<newline>''), Chunk (?l @ ''\<newline>'')] ([], st0)
      = (None, [], append_text ''lo'' (append_text ''Hel'' st0))"
    using ollama c1 c2 by (simp add: process_chunk_def del: append.simps)
  have res: "handleStreamResponse P [Chunk (?h @ ''\<newline>''), Chunk (?l @ ''\<newline>'')] st0
      = (Inr (streamBufferRef st0 @ ''Hello''), releaseLock (append_text ''lo'' (append_text ''Hel'' st0)))"
    unfolding handleStreamResponse_def Let_def run
    by (simp add: append_text_fields releaseLock_def)
  have "notified (effects (releaseLock (append_text ''lo'' (append_text ''Hel'' st0))))
      = notified (effects st0) @ [streamBufferRef st0 @ ''Hel'', streamBufferRef st0 @ ''Hello'']"
    by (simp add: append_text_fields releaseLock_def notified_append)
  with res line show ?thesis by (simp add: append_text_fields)
qed

theorem ollama_record_appends_content_witness:
  \<open>\<not> trims_to_empty ''{"response":"X"}''
   \<and> example_parse ''{"response":"X"}'' = Some (JObj [(''response'', JStr ''X'')])
   \<and> \<not> truthy (map_of [(''response'', JStr ''X'')] ''message'')
   \<and> map_of [(''response'', JStr ''X'')] ''response'' = Some (JStr ''X'')
   \<and> example_parse ''{"message":{"content":"Hel"}}'' = Some (JObj [(''message'', JObj [(''content'', JStr ''Hel'')])])
   \<and> example_parse ''{"message":{"content":"lo"}}'' = Some (JObj [(''message'', JObj [(''content'', JStr ''lo'')])])
   \<and> apiProvider ollama_app = ''ollama''
   \<and> ollama_line example_parse ''{"response":"X"}'' ollama_app = Inr (append_text ''X'' ollama_app)
   \<and> fst (handleStreamResponse example_parse
        [Chunk ''{"message":{"content":"Hel"}}\<newline>'', Chunk ''{"message":{"content":"lo"}}\<newline>''] ollama_app)
       = Inr ''Hello''
   \<and> notified (effects (snd (handleStreamResponse example_parse
        [Chunk ''{"message":{"content":"Hel"}}\<newline>'', Chunk ''{"message":{"content":"lo"}}\<newline>''] ollama_app)))
       = [''Hel'', ''Hello'']\<close>
proof -
  have h1: \<open>\<not> trims_to_empty ''{"response":"X"}''\<close>
    by (simp add: trims_to_empty_def is_space_def)
  have h2: \<open>example_parse ''{"response":"X"}'' = Some (JObj [(''response'', JStr ''X'')])\<close>
    by (simp add: example_parse_def example_frames_def)
  have h3: "(map_of [(''response'', JStr ''X'')] ''message'' = Some (JObj []) \<and> map_of [] ''content'' = Some (JStr ''X''))
      \<or> (\<not> truthy (map_of [(''response'', JStr ''X'')] ''message'')
          \<and> map_of [(''response'', JStr ''X'')] ''response'' = Some (JStr ''X''))"
    by simp
  have h4: \<open>example_parse ''{"message":{"content":"Hel"}}'' = Some (JObj [(''message'', JObj [(''content'', JStr ''Hel'')])])\<close>
    by (simp add: example_parse_def example_frames_def)
  have h5: \<open>example_parse ''{"message":{"content":"lo"}}'' = Some (JObj [(''message'', JObj [(''content'', JStr ''lo'')])])\<close>
    by (simp add: example_parse_def example_frames_def)
  have h6: "apiProvider ollama_app = ''ollama''"
    by (simp add: ollama_app_def initial_app_def)
  have start: "streamBufferRef ollama_app = []" "effects ollama_app = []"
    by (simp_all add: ollama_app_def initial_app_def)
  show ?thesis
    using ollama_record_appends_content
        [where P = example_parse and m = "[]" and s = "''X''" and st = ollama_app
           and ?st0.0 = ollama_app, OF h1 h2 h3 h4 h5 h6]
      h1 h2 h4 h5 h6 start
    by simp
qed

section \<open>Lines that carry no text, in the OpenRouter branch\<close>

text \<open>
  C8. In the OpenRouter branch a line that is blank, that contains \<^verbatim>\<open>[DONE]\<close>, or
  whose payload after \<^verbatim>\<open>data: \<close> does not parse adds nothing to the buffer and
  notifies nobody: the first two leave the state as it is, the third only logs to the
  console. No exception leaves the line: the lines after it in the chunk are
  processed from that state, with the holding buffer untouched, and a stream that
  consists of the line returns the buffer it started with.
\<close>

theorem sse_noise_line_adds_nothing:
  assumes "apiProvider st \<noteq> ''ollama''" and "CHR 0x0A \<notin> set line"
    and "trims_to_empty line \<or> str_includes line ''[DONE]''
         \<or> (startsWith line ''data: '' \<and> P (drop 6 line) = None)"
  shows "process_chunk P (apiProvider st) g (line @ CHR 0x0A # rest) (wb, st) =
           process_chunk P (apiProvider st) g rest
             (wb, if trims_to_empty line \<or> str_includes line ''[DONE]'' then st
                  else console_error st)
         \<and> process_chunk P (apiProvider st) g line (wb, st) =
             (wb, if trims_to_empty line \<or> str_includes line ''[DONE]'' then st
                  else console_error st)
         \<and> streamBufferRef (console_error st) = streamBufferRef st
         \<and> streamedResponse (console_error st) = streamedResponse st
         \<and> effects (console_error st) = effects st @ [ConsoleError]
         \<and> handleStreamResponse P [Chunk line] st =
             (Inr (streamBufferRef st),
              releaseLock (if trims_to_empty line \<or> str_includes line ''[DONE]'' then st
                           else console_error st))"
  using assms
  by (auto simp: handleStreamResponse_def process_chunk_def split_newline_append split_newline_single
        sse_line_skipped sse_line_unparsed console_error_def releaseLock_def)

theorem sse_noise_line_adds_nothing_witness:
  \<open>apiProvider openrouter_app \<noteq> ''ollama'' \<and> CHR 0x0A \<notin> set ''data: {"cho''
   \<and> (trims_to_empty ''data: {"cho'' \<or> str_includes ''data: {"cho'' ''[DONE]''
        \<or> (startsWith ''data: {"cho'' ''data: '' \<and> example_parse (drop 6 ''data: {"cho'') = None))
   \<and> process_chunk example_parse (apiProvider openrouter_app) False
        (''data: {"cho'' @ CHR 0x0A # ''data: [DONE]'') ([], openrouter_app)
      = ([], console_error openrouter_app)
   \<and> handleStreamResponse example_parse [Chunk ''data: {"cho''] openrouter_app
      = (Inr [], releaseLock (console_error openrouter_app))\<close>
proof -
  have prov: "apiProvider openrouter_app \<noteq> ''ollama''"
    by (simp add: openrouter_app_def initial_app_def)
  have nl: \<open>CHR 0x0A \<notin> set ''data: {"cho''\<close> by simp
  have line: \<open>startsWith ''data: {"cho'' ''data: '' \<and> example_parse (drop 6 ''data: {"cho'') = None\<close>
    by (simp add: startsWith_def example_parse_def example_frames_def)
  then have cases: \<open>trims_to_empty ''data: {"cho'' \<or> str_includes ''data: {"cho'' ''[DONE]''
        \<or> (startsWith ''data: {"cho'' ''data: '' \<and> example_parse (drop 6 ''data: {"cho'') = None)\<close>
    by blast
  have shape: \<open>\<not> trims_to_empty ''data: {"cho'' \<and> \<not> str_includes ''data: {"cho'' ''[DONE]''\<close>
    by (simp add: trims_to_empty_def is_space_def startsWith_def)
  have done_line: "process_chunk example_parse (apiProvider openrouter_app) False ''data: [DONE]''
        ([], console_error openrouter_app)
      = ([], console_error openrouter_app)"
    using prov by (simp add: process_chunk_def sse_line_def startsWith_def)
  have start: "streamBufferRef openrouter_app = []"
    by (simp add: openrouter_app_def initial_app_def)
  show ?thesis
    using sse_noise_line_adds_nothing
      [where P = example_parse and g = False and rest = "''data: [DONE]''" and wb = "[]"
         and st = openrouter_app, OF prov nl cases]
      prov nl cases shape done_line start
    by simp
qed

section \<open>A new chat while a stream runs\<close>




section \<open>The guard of the send handler\<close>

text \<open>
  C10. When the prompt is empty or white space only, or no model is selected,
  \<^verbatim>\<open>handleSendPrompt\<close> returns at once: the state is the one it was called in, with
  no request sent, nothing notified and no cell written.
\<close>

theorem handleSendPrompt_guard:
  "trims_to_empty (prompt st) \<or> selectedLLM st = [] \<Longrightarrow> handleSendPrompt P W st = st"
  by (simp add: handleSendPrompt_def)

theorem handleSendPrompt_guard_witness:
  "(trims_to_empty (prompt (ollama_app\<lparr>prompt := '' ''\<rparr>))
      \<or> selectedLLM (ollama_app\<lparr>prompt := '' ''\<rparr>) = [])
   \<and> handleSendPrompt example_parse example_world (ollama_app\<lparr>prompt := '' ''\<rparr>)
       = ollama_app\<lparr>prompt := '' ''\<rparr>"
  using handleSendPrompt_guard [of "ollama_app\<lparr>prompt := '' ''\<rparr>" example_parse example_world]
  by (simp add: trims_to_empty_def is_space_def)

text \<open>Past the guard the handler acts: with a prompt and a model it empties the
  buffer, creates the chat, saves the prompt and asks the provider.\<close>

lemma handleSendPrompt_example:
  "effects (handleSendPrompt example_parse example_world (ollama_app\<lparr>prompt := ''hi''\<rparr>)) =
     [SetStreamedResponse [], Fetch (CreateChat ''hi''), Fetch (SaveMessage ''c1'' ''hi'' ''user''),
      Fetch (OllamaGenerate ''http://localhost:11434'' ''llama3'' ''hi''), ReleaseLock]"
  by (simp add: handleSendPrompt_def trims_to_empty_def is_space_def ollama_app_def initial_app_def
        setStreamedResponse_def send_try_def ensure_chat_def new_chat_def fetch_def example_world_def
        stream_and_save_def handleStreamResponse_def releaseLock_def save_assistant_def Let_def)

end
